theory Spec2Isabelle
  imports Complex_Main "HOL-Library.Multiset" "HOL-Library.Code_Target_Numeral"
begin

section \<open>Numbers\<close>

text \<open>
  A TypeScript \<open>number\<close> is modelled as an exact rational or the value \<open>NaN\<close>.
  Rounding to binary64, the two infinities and the sign of zero are not represented:
  arithmetic on \<open>Val\<close> is exact.
\<close>

datatype number = NaN | Val rat

section \<open>Arithmetic on numbers\<close>

fun num_sub :: "number \<Rightarrow> number \<Rightarrow> number" where
  "num_sub (Val a) (Val b) = Val (a - b)"
| "num_sub _ _ = NaN"

fun num_add :: "number \<Rightarrow> number \<Rightarrow> number" where
  "num_add (Val a) (Val b) = Val (a + b)"
| "num_add _ _ = NaN"

fun num_mul :: "number \<Rightarrow> number \<Rightarrow> number" where
  "num_mul (Val a) (Val b) = Val (a * b)"
| "num_mul _ _ = NaN"

text \<open>
  Division: \<open>0 / 0\<close> is \<open>NaN\<close>. A non-zero dividend over zero is an infinity in the
  source; \<open>number\<close> has none, and the quotient is \<open>NaN\<close> here as well.
\<close>

fun num_div :: "number \<Rightarrow> number \<Rightarrow> number" where
  "num_div (Val a) (Val b) = (if b = 0 then NaN else Val (a / b))"
| "num_div _ _ = NaN"

text \<open>\<open>a <= b\<close> and \<open>a < b\<close>: false as soon as one side is \<open>NaN\<close>.\<close>

fun num_le :: "number \<Rightarrow> number \<Rightarrow> bool" where
  "num_le (Val a) (Val b) = (a \<le> b)"
| "num_le _ _ = False"

fun num_less :: "number \<Rightarrow> number \<Rightarrow> bool" where
  "num_less (Val a) (Val b) = (a < b)"
| "num_less _ _ = False"

fun math_floor :: "number \<Rightarrow> number" where
  "math_floor (Val a) = Val (of_int \<lfloor>a\<rfloor>)"
| "math_floor NaN = NaN"

text \<open>\<open>Math.round\<close>: to the nearest integer, a half going up.\<close>

fun math_round :: "number \<Rightarrow> number" where
  "math_round (Val a) = Val (of_int \<lfloor>a + 1 / 2\<rfloor>)"
| "math_round NaN = NaN"

section \<open>Exceptions\<close>

text \<open>
  The exceptions this code can throw: reading a property of \<open>undefined\<close> throws a
  \<open>TypeError\<close>, reading a \<open>const\<close> whose declaration has not been evaluated
  yet throws a \<open>ReferenceError\<close>, and \<open>JSON.parse\<close> throws a
  \<open>SyntaxError\<close> on text that is not JSON. Each carries its message.
\<close>

datatype JsError = TypeError string | ReferenceError string | SyntaxError string

fun jsMessage :: "JsError \<Rightarrow> string" where
  "jsMessage (TypeError m) = m"
| "jsMessage (ReferenceError m) = m"
| "jsMessage (SyntaxError m) = m"

section \<open>Decimal rendering\<close>

text \<open>The decimal digits of a number in a template literal such as \<open>`${i + 1}`\<close>.\<close>

fun showNat :: "nat \<Rightarrow> string" where
  "showNat n =
     (if n < 10 then [''0123456789'' ! n]
      else showNat (n div 10) @ [''0123456789'' ! (n mod 10)])"

declare showNat.simps [simp del]

definition showInt :: "int \<Rightarrow> string" where
  "showInt i = (if i < 0 then CHR ''-'' # showNat (nat (- i)) else showNat (nat i))"

text \<open>
  \<open>x.toFixed(2)\<close>: the sign, then the nearest multiple of 1/100 (a half going up in
  magnitude) in positional digits. Magnitudes from \<open>10^21\<close> on, which the source writes
  in exponent notation, are written positionally here as well.
\<close>

fun toFixed2 :: "number \<Rightarrow> string" where
  "toFixed2 NaN = ''NaN''"
| "toFixed2 (Val x) =
     (let n = nat \<lfloor>\<bar>x\<bar> * 100 + 1 / 2\<rfloor>
      in (if x < 0 then ''-'' else [])
         @ showNat (n div 100) @ ''.'' @ showNat (n mod 100 div 10) @ showNat (n mod 10))"

section \<open>Currency converter (context/CurrencyContext.tsx)\<close>

record Currency =
  code :: string
  symbol :: string
  name :: string

text \<open>
  A rate table: an object with a rate under each currency code it lists; the rates are
  exact rationals. \<open>None\<close> is a code the object has no member of its own for.
\<close>

type_synonym ExchangeRates = "string \<rightharpoonup> rat"

text \<open>
  The state \<open>exchangeRates\<close>. It starts as the empty object; \<open>fetchRates\<close> stores
  the member \<open>rates\<close> of the service's reply as it comes, or the embedded table when the
  request throws. A reply that parses but carries no \<open>rates\<close> leaves \<open>undefined\<close>
  in the state: that is \<open>None\<close> here.
\<close>

type_synonym RatesState = "ExchangeRates option"

text \<open>The embedded table installed when the rate service cannot be reached.\<close>

definition fallbackRates :: ExchangeRates where
  "fallbackRates =
     [''USD'' \<mapsto> 1, ''EUR'' \<mapsto> 92 / 100, ''GBP'' \<mapsto> 79 / 100, ''ZAR'' \<mapsto> 185 / 10,
      ''NGN'' \<mapsto> 1580, ''KES'' \<mapsto> 129, ''JPY'' \<mapsto> 149, ''CAD'' \<mapsto> 136 / 100,
      ''AUD'' \<mapsto> 152 / 100]"

text \<open>
  The read \<open>exchangeRates[c]\<close> on a table. A member of the table's own comes first.
  Without one the read goes on to what every object inherits from \<open>Object.prototype\<close>:
  under these names it finds a function (under \<open>__proto__\<close> the prototype object),
  under any other name nothing, and the result is \<open>undefined\<close>.
\<close>

definition inheritedNames :: "string list" where
  "inheritedNames =
     [''constructor'', ''hasOwnProperty'', ''isPrototypeOf'', ''propertyIsEnumerable'',
      ''toLocaleString'', ''toString'', ''valueOf'', ''__proto__'', ''__defineGetter__'',
      ''__defineSetter__'', ''__lookupGetter__'', ''__lookupSetter__'']"

datatype RateRead = Undefined | OwnRate rat | InheritedMember

definition readRate :: "ExchangeRates \<Rightarrow> string \<Rightarrow> RateRead" where
  "readRate table c =
     (case table c of
        Some r \<Rightarrow> OwnRate r
      | None \<Rightarrow> if c \<in> set inheritedNames then InheritedMember else Undefined)"

text \<open>
  \<open>!exchangeRates[c]\<close>: true for \<open>undefined\<close> and for the number \<open>0\<close>; a
  function or an object is truthy.
\<close>

fun falsy :: "RateRead \<Rightarrow> bool" where
  "falsy Undefined = True"
| "falsy (OwnRate r) = (r = 0)"
| "falsy InheritedMember = False"

definition noRate :: "ExchangeRates \<Rightarrow> string \<Rightarrow> bool" where
  "noRate table c = falsy (readRate table c)"

text \<open>
  The operand of \<open>/\<close> and \<open>*\<close> as a number: a rate is itself, a function or an
  object converts to \<open>NaN\<close>, and so does \<open>undefined\<close>.
\<close>

fun rateNumber :: "RateRead \<Rightarrow> number" where
  "rateNumber (OwnRate r) = Val r"
| "rateNumber InheritedMember = NaN"
| "rateNumber Undefined = NaN"

text \<open>
  \<open>convertPrice(price, fromCurrency)\<close>, with the component state it closes over
  (\<open>exchangeRates\<close>, \<open>selectedCurrency\<close>) as explicit arguments. With
  \<open>undefined\<close> in the state the first read \<open>exchangeRates[fromCurrency]\<close> throws.
\<close>

definition convertPrice :: "RatesState \<Rightarrow> Currency \<Rightarrow> number \<Rightarrow> string \<Rightarrow> JsError + number" where
  "convertPrice exchangeRates selectedCurrency price fromCurrency =
     (case exchangeRates of
        None \<Rightarrow>
          Inl (TypeError (''Cannot read properties of undefined (reading ''
                            @ [CHR 0x27] @ fromCurrency @ [CHR 0x27] @ '')''))
      | Some table \<Rightarrow>
          if noRate table fromCurrency \<or> noRate table (code selectedCurrency)
          then Inr price
          else (let priceInUSD = num_div price (rateNumber (readRate table fromCurrency))
                in Inr (num_mul priceInUSD (rateNumber (readRate table (code selectedCurrency))))))"

text \<open>
  \<open>formatPrice(price, fromCurrency)\<close>: the symbol of the selected currency and the
  converted price with two decimals.
\<close>

definition formatPrice :: "RatesState \<Rightarrow> Currency \<Rightarrow> number \<Rightarrow> string \<Rightarrow> JsError + string" where
  "formatPrice exchangeRates selectedCurrency price' fromCurrency =
     (case convertPrice exchangeRates selectedCurrency price' fromCurrency of
        Inl e \<Rightarrow> Inl e
      | Inr convertedPrice \<Rightarrow> Inr (symbol selectedCurrency @ toFixed2 convertedPrice))"

definition USD :: Currency where
  "USD = \<lparr>code = ''USD'', symbol = ''$'', name = ''US Dollar''\<rparr>"

definition ZAR :: Currency where
  "ZAR = \<lparr>code = ''ZAR'', symbol = ''R'', name = ''South African Rand''\<rparr>"

definition KES :: Currency where
  "KES = \<lparr>code = ''KES'', symbol = ''KSh'', name = ''Kenyan Shilling''\<rparr>"

section \<open>Booking records and the document store (api/firestoreBooking.ts)\<close>

datatype PassengerType = Adult | Child | Infant

record Passenger =
  passengerType :: PassengerType
  firstName :: string
  lastName :: string
  dateOfBirth :: string
  passportNumber :: "string option"
  nationality :: "string option"

datatype PaymentStatus = PaymentPending | PaymentCompleted | PaymentFailed

datatype BookingStatus = Confirmed | Cancelled | Pending

text \<open>A Firestore \<open>Timestamp\<close>, as milliseconds since the epoch.\<close>

type_synonym Timestamp = int

record BookingData =
  userId :: string
  userEmail :: string
  flightId :: string
  origin :: string
  destination :: string
  departureDate :: string
  returnDate :: "string option"
  passengers :: "Passenger list"
  totalPrice :: number
  currency :: string
  contactEmail :: string
  contactPhone :: string
  paymentStatus :: PaymentStatus
  paymentReference :: "string option"
  flightData :: string
  createdAt :: Timestamp
  updatedAt :: Timestamp
  bookingReference :: string
  status :: BookingStatus

text \<open>
  The argument of \<open>createBooking\<close>:
  \<open>Omit<BookingData, "createdAt" | "updatedAt" | "bookingReference">\<close>.
\<close>

record NewBooking =
  nb_userId :: string
  nb_userEmail :: string
  nb_flightId :: string
  nb_origin :: string
  nb_destination :: string
  nb_departureDate :: string
  nb_returnDate :: "string option"
  nb_passengers :: "Passenger list"
  nb_totalPrice :: number
  nb_currency :: string
  nb_contactEmail :: string
  nb_contactPhone :: string
  nb_paymentStatus :: PaymentStatus
  nb_paymentReference :: "string option"
  nb_flightData :: string
  nb_status :: BookingStatus

text \<open>The collection \<open>"bookings"\<close>: documents by identifier.\<close>

type_synonym Store = "string \<rightharpoonup> BookingData"

text \<open>
  What a call to the store can throw: the request fails on the way (network, permission),
  or \<open>updateDoc\<close> finds no document under the identifier.
\<close>

datatype FirestoreError = Unavailable string | NotFound string

fun errorMessage :: "FirestoreError \<Rightarrow> string" where
  "errorMessage (Unavailable m) = m"
| "errorMessage (NotFound m) = m"

text \<open>
  \<open>generateBookingReference\<close>: six draws of \<open>Math.random()\<close>, each picking
  \<open>chars.charAt(Math.floor(r * chars.length))\<close>; \<open>charAt\<close> out of range is the empty
  string.
\<close>

definition chars :: string where
  "chars = ''ABCDEFGHIJKLMNOPQRSTUVWXYZ0123456789''"

definition charAt :: "string \<Rightarrow> int \<Rightarrow> string" where
  "charAt s i = (if 0 \<le> i \<and> i < int (length s) then [s ! nat i] else [])"

fun referenceLoop :: "rat list \<Rightarrow> string \<Rightarrow> string" where
  "referenceLoop [] reference = reference"
| "referenceLoop (r # rs) reference =
     referenceLoop rs (reference @ charAt chars \<lfloor>r * of_nat (length chars)\<rfloor>)"

definition generateBookingReference :: "rat list \<Rightarrow> string" where
  "generateBookingReference randoms = ''BK'' @ referenceLoop (take 6 randoms) []"

text \<open>
  \<open>addDoc\<close> and \<open>updateDoc\<close>. The outcome of the remote call is an argument:
  \<open>Inl e\<close> when the call is rejected before it reaches the store, \<open>Inr docId\<close> for
  \<open>addDoc\<close> with the identifier the store generates.
\<close>

definition addDoc :: "FirestoreError + string \<Rightarrow> Store \<Rightarrow> BookingData \<Rightarrow> FirestoreError + (string \<times> Store)" where
  "addDoc outcome db d =
     (case outcome of
        Inl e \<Rightarrow> Inl e
      | Inr docId \<Rightarrow> Inr (docId, db(docId \<mapsto> d)))"

definition updateDoc :: "FirestoreError option \<Rightarrow> Store \<Rightarrow> string \<Rightarrow> (BookingData \<Rightarrow> BookingData) \<Rightarrow> FirestoreError + Store" where
  "updateDoc fault db docId change =
     (case fault of
        Some e \<Rightarrow> Inl e
      | None \<Rightarrow>
          (case db docId of
             None \<Rightarrow> Inl (NotFound (''No document to update: bookings/'' @ docId))
           | Some d \<Rightarrow> Inr (db(docId \<mapsto> change d))))"

text \<open>
  \<open>createBooking\<close>: the two \<open>Timestamp.now()\<close> readings and the random draws are
  arguments. An error is logged and thrown again, so it is the result.
\<close>

definition createBooking :: "FirestoreError + string \<Rightarrow> rat list \<Rightarrow> Timestamp \<Rightarrow> Timestamp \<Rightarrow> Store \<Rightarrow> NewBooking \<Rightarrow> FirestoreError + (string \<times> Store)" where
  "createBooking outcome randoms nowCreated nowUpdated db bookingData =
     addDoc outcome db
       \<lparr>userId = nb_userId bookingData,
        userEmail = nb_userEmail bookingData,
        flightId = nb_flightId bookingData,
        origin = nb_origin bookingData,
        destination = nb_destination bookingData,
        departureDate = nb_departureDate bookingData,
        returnDate = nb_returnDate bookingData,
        passengers = nb_passengers bookingData,
        totalPrice = nb_totalPrice bookingData,
        currency = nb_currency bookingData,
        contactEmail = nb_contactEmail bookingData,
        contactPhone = nb_contactPhone bookingData,
        paymentStatus = nb_paymentStatus bookingData,
        paymentReference = nb_paymentReference bookingData,
        flightData = nb_flightData bookingData,
        createdAt = nowCreated,
        updatedAt = nowUpdated,
        bookingReference = generateBookingReference randoms,
        status = nb_status bookingData\<rparr>"

text \<open>
  \<open>updateBookingPayment(bookingId, paymentStatus, paymentReference)\<close>. The parameter
  type is \<open>"completed" | "failed"\<close>.
\<close>

datatype PaymentResult = completed | failed

fun asPaymentStatus :: "PaymentResult \<Rightarrow> PaymentStatus" where
  "asPaymentStatus completed = PaymentCompleted"
| "asPaymentStatus failed = PaymentFailed"

definition updateBookingPayment :: "FirestoreError option \<Rightarrow> Timestamp \<Rightarrow> Store \<Rightarrow> string \<Rightarrow> PaymentResult \<Rightarrow> string \<Rightarrow> FirestoreError + Store" where
  "updateBookingPayment fault now db bookingId paymentStatus' paymentReference' =
     updateDoc fault db bookingId
       (\<lambda>d. d\<lparr>paymentStatus := asPaymentStatus paymentStatus',
               paymentReference := Some paymentReference',
               status := (if paymentStatus' = completed then Confirmed else Pending),
               updatedAt := now\<rparr>)"

text \<open>\<open>cancelBooking(bookingId)\<close>.\<close>

definition cancelBooking :: "FirestoreError option \<Rightarrow> Timestamp \<Rightarrow> Store \<Rightarrow> string \<Rightarrow> FirestoreError + Store" where
  "cancelBooking fault now db bookingId =
     updateDoc fault db bookingId (\<lambda>d. d\<lparr>status := Cancelled, updatedAt := now\<rparr>)"

section \<open>Flight offers (api/amadeus.ts)\<close>

record Segment =
  departure_iataCode :: string
  departure_at :: string
  arrival_iataCode :: string
  arrival_at :: string
  carrierCode :: string
  flightNumber :: string
  aircraft_code :: string
  segment_duration :: string

record Itinerary =
  duration :: string
  segments :: "Segment list"

record Price =
  total :: string
  price_currency :: string

record FlightOffer =
  offer_id :: string
  price :: Price
  itineraries :: "Itinerary list"
  validatingAirlineCodes :: "string list"
  numberOfBookableSeats :: int

section \<open>Reading numbers from strings\<close>

definition isDigit :: "char \<Rightarrow> bool" where
  "isDigit c = (c \<in> set ''0123456789'')"

definition digitValue :: "char \<Rightarrow> nat" where
  "digitValue c = of_char c - 48"

definition digitsValue :: "string \<Rightarrow> nat" where
  "digitsValue ds = foldl (\<lambda>a c. 10 * a + digitValue c) 0 ds"

definition isSpace :: "char \<Rightarrow> bool" where
  "isSpace c = (c \<in> set [CHR '' '', CHR 0x09, CHR 0x0A, CHR 0x0B, CHR 0x0C, CHR 0x0D])"

text \<open>
  The optional exponent part of a decimal literal: \<open>e\<close> or \<open>E\<close>, an optional sign and
  at least one digit. The result is the sign and the magnitude of the exponent; text that is
  no exponent part is ignored.
\<close>

definition exponentPart :: "string \<Rightarrow> bool \<times> nat" where
  "exponentPart s =
     (case s of
        [] \<Rightarrow> (False, 0)
      | c # r \<Rightarrow>
          if c = CHR ''e'' \<or> c = CHR ''E'' then
            (let (neg, u) =
                   (case r of
                      [] \<Rightarrow> (False, [])
                    | d # v \<Rightarrow>
                        if d = CHR ''-'' then (True, v)
                        else if d = CHR ''+'' then (False, v)
                        else (False, r));
                 ds = takeWhile isDigit u
             in if ds = [] then (False, 0) else (neg, digitsValue ds))
          else (False, 0))"

text \<open>
  The built-in \<open>parseFloat\<close>: leading white space is skipped, then the longest prefix
  that is a signed decimal literal is read; without such a prefix the result is \<open>NaN\<close>.
  The literal \<open>Infinity\<close> has no value in \<open>number\<close> and is not recognised here.
\<close>

definition parseFloat :: "string \<Rightarrow> number" where
  "parseFloat s =
     (let t = dropWhile isSpace s;
          (neg, u) =
             (case t of
                [] \<Rightarrow> (False, [])
              | c # r \<Rightarrow>
                  if c = CHR ''-'' then (True, r)
                  else if c = CHR ''+'' then (False, r)
                  else (False, t));
          ip = takeWhile isDigit u;
          afterInt = dropWhile isDigit u;
          hasPoint = (case afterInt of [] \<Rightarrow> False | c # r \<Rightarrow> c = CHR ''.'');
          fp = (if hasPoint then takeWhile isDigit (tl afterInt) else []);
          rest = (if hasPoint then dropWhile isDigit (tl afterInt) else afterInt);
          (eneg, e) = exponentPart rest;
          mantissa = (of_nat (digitsValue ip) :: rat)
                       + of_nat (digitsValue fp) / 10 ^ length fp;
          magnitude = (if eneg then mantissa / 10 ^ e else mantissa * 10 ^ e)
      in if ip = [] \<and> fp = [] then NaN
         else Val (if neg then - magnitude else magnitude))"

text \<open>
  \<open>parseInt\<close> on the strings this code gives it: an unsigned run of decimal digits,
  followed by anything. Without a leading digit the result is \<open>NaN\<close>.
\<close>

definition parseInt :: "string \<Rightarrow> number" where
  "parseInt s =
     (let ds = takeWhile isDigit (dropWhile isSpace s)
      in if ds = [] then NaN else Val (of_nat (digitsValue ds)))"

section \<open>The payment widget (api/paystack.ts)\<close>

record PaystackMetadata =
  meta_bookingId :: string
  meta_flightId :: string
  meta_passengers :: nat

record PaystackConfig =
  config_email :: string
  config_amount :: number
  config_currency :: string
  config_reference :: string
  config_metadata :: PaystackMetadata

text \<open>
  What the widget does first after \<open>openIframe\<close>: it calls \<open>callback\<close> with a response
  (of which the code reads \<open>status\<close>), or it calls \<open>onClose\<close>; or \<open>setup\<close> itself
  throws inside the promise's executor. A promise settles once, so the first event decides.
\<close>

datatype WidgetEvent = Callback string | OnClose | SetupThrows string

text \<open>\<open>initializePayment\<close>: \<open>Inl\<close> is the message of the rejection.\<close>

definition initializePayment :: "PaystackConfig \<Rightarrow> WidgetEvent \<Rightarrow> string + string" where
  "initializePayment config event =
     (case event of
        OnClose \<Rightarrow> Inl ''Payment cancelled''
      | Callback responseStatus \<Rightarrow> Inr responseStatus
      | SetupThrows m \<Rightarrow> Inl m)"

section \<open>The booking page (pages/booking/Booking.tsx)\<close>

record User =
  uid :: string
  email :: "string option"

text \<open>
  The search parameters as they come back from \<open>JSON.parse\<close> of the session entry. A
  count is an integer, or \<open>null\<close> (\<open>None\<close>) where the results page had \<open>NaN\<close>.
\<close>

record SearchParams =
  sp_origin :: string
  sp_destination :: string
  sp_departureDate :: string
  sp_returnDate :: string
  tripType :: string
  adults :: "int option"
  children :: "int option"
  infants :: "int option"

record FlightInfo =
  flight :: FlightOffer
  searchParams :: SearchParams

record BookingPage =
  user :: "User option"
  flightInfo :: "FlightInfo option"
  loading :: bool
  error :: "string option"
  form_passengers :: "Passenger list"
  form_contactEmail :: string
  form_contactPhone :: string
  navigatedTo :: "string option"
  selectedFlightStored :: bool

text \<open>The blank form of one passenger.\<close>

definition blankPassenger :: "PassengerType \<Rightarrow> Passenger" where
  "blankPassenger t =
     \<lparr>passengerType = t, firstName = [], lastName = [], dateOfBirth = [],
      passportNumber = Some [], nationality = Some []\<rparr>"

text \<open>
  \<open>for (let i = 0; i < n; i++) initialPassengers.push(...)\<close>, from the counter's
  current value \<open>i\<close>.
\<close>

function pushLoop :: "int \<Rightarrow> int \<Rightarrow> PassengerType \<Rightarrow> Passenger list \<Rightarrow> Passenger list" where
  "pushLoop i n t initialPassengers =
     (if i < n then pushLoop (i + 1) n t (initialPassengers @ [blankPassenger t])
      else initialPassengers)"
  by pat_completeness auto
termination
  by (relation "measure (\<lambda>(i, n, t, ps). nat (n - i))") auto

declare pushLoop.simps [simp del]

text \<open>
  The loop bound as the comparison \<open>i < n\<close> sees it: \<open>null\<close> compares as 0.
  \<open>orZero\<close> is \<open>(n || 0)\<close>.
\<close>

definition boundOf :: "int option \<Rightarrow> int" where
  "boundOf n = (case n of None \<Rightarrow> 0 | Some v \<Rightarrow> v)"

definition orZero :: "int option \<Rightarrow> int" where
  "orZero n = (case n of None \<Rightarrow> 0 | Some v \<Rightarrow> if v = 0 then 0 else v)"

definition initialPassengers :: "SearchParams \<Rightarrow> Passenger list" where
  "initialPassengers sp =
     (let a = boundOf (adults sp);
          c = orZero (children sp);
          i = orZero (infants sp);
          ps1 = pushLoop 0 a Adult [];
          ps2 = pushLoop 0 c Child ps1
      in pushLoop 0 i Infant ps2)"

text \<open>The page as the \<open>useState\<close> initialisers leave it.\<close>

definition initialBookingPage :: "User option \<Rightarrow> bool \<Rightarrow> BookingPage" where
  "initialBookingPage u stored =
     \<lparr>user = u, flightInfo = None, loading = False, error = None, form_passengers = [],
      form_contactEmail = (case u of None \<Rightarrow> [] | Some v \<Rightarrow> (case email v of None \<Rightarrow> [] | Some e \<Rightarrow> e)),
      form_contactPhone = [], navigatedTo = None, selectedFlightStored = stored\<rparr>"

text \<open>
  The effect run when the page mounts; its argument is the parsed session entry
  \<open>"selectedFlight"\<close>, if there is one.
\<close>

definition mountBooking :: "FlightInfo option \<Rightarrow> BookingPage \<Rightarrow> BookingPage" where
  "mountBooking savedFlight page =
     (case savedFlight of
        None \<Rightarrow> page\<lparr>navigatedTo := Some ''/''\<rparr>
      | Some data \<Rightarrow>
          page\<lparr>flightInfo := Some data,
               form_passengers := initialPassengers (searchParams data)\<rparr>)"

text \<open>
  \<open>updatePassenger(index, field, value)\<close>. The form calls it with these five fields,
  from the inputs rendered for the passengers present, so \<open>index\<close> is in range; for an
  index with no input the state stays as it is.
\<close>

datatype PassengerField =
  FieldFirstName | FieldLastName | FieldDateOfBirth | FieldPassportNumber | FieldNationality

fun setField :: "PassengerField \<Rightarrow> string \<Rightarrow> Passenger \<Rightarrow> Passenger" where
  "setField FieldFirstName v p = p\<lparr>firstName := v\<rparr>"
| "setField FieldLastName v p = p\<lparr>lastName := v\<rparr>"
| "setField FieldDateOfBirth v p = p\<lparr>dateOfBirth := v\<rparr>"
| "setField FieldPassportNumber v p = p\<lparr>passportNumber := Some v\<rparr>"
| "setField FieldNationality v p = p\<lparr>nationality := Some v\<rparr>"

definition updatePassenger :: "nat \<Rightarrow> PassengerField \<Rightarrow> string \<Rightarrow> BookingPage \<Rightarrow> BookingPage" where
  "updatePassenger index field v page =
     (if index < length (form_passengers page)
      then page\<lparr>form_passengers :=
                  (form_passengers page)[index := setField field v (form_passengers page ! index)]\<rparr>
      else page)"

text \<open>What the user does to the form before paying: one input changes at a time.\<close>

datatype FormEvent =
  PassengerInput nat PassengerField string
| ContactEmailInput string
| ContactPhoneInput string

fun formEvent :: "BookingPage \<Rightarrow> FormEvent \<Rightarrow> BookingPage" where
  "formEvent page (PassengerInput index field v) = updatePassenger index field v page"
| "formEvent page (ContactEmailInput v) = page\<lparr>form_contactEmail := v\<rparr>"
| "formEvent page (ContactPhoneInput v) = page\<lparr>form_contactPhone := v\<rparr>"

text \<open>
  \<open>validateForm\<close>: \<open>None\<close> for \<open>true\<close>, otherwise the message it puts in \<open>error\<close>
  before it returns \<open>false\<close>.
\<close>

fun incompletePassenger :: "nat \<Rightarrow> Passenger list \<Rightarrow> nat option" where
  "incompletePassenger i [] = None"
| "incompletePassenger i (p # ps) =
     (if firstName p = [] \<or> lastName p = [] \<or> dateOfBirth p = [] then Some i
      else incompletePassenger (i + 1) ps)"

definition validateForm :: "BookingPage \<Rightarrow> string option" where
  "validateForm page =
     (if form_contactEmail page = [] \<or> form_contactPhone page = []
      then Some ''Please provide contact email and phone number''
      else (case incompletePassenger 0 (form_passengers page) of
              Some i \<Rightarrow>
                Some (''Please complete all required fields for passenger '' @ showNat (i + 1))
            | None \<Rightarrow> None))"

text \<open>
  What the outside world contributes to one run of \<open>handlePayment\<close>: the outcome of
  \<open>addDoc\<close>, the random draws and clock readings of \<open>createBooking\<close>, the reading of
  \<open>Date.now()\<close>, the text \<open>JSON.stringify\<close> gives for the offer, the widget's event, and
  the outcome and clock reading of the payment update.
\<close>

record PaymentRun =
  addDocOutcome :: "FirestoreError + string"
  randoms :: "rat list"
  nowCreated :: Timestamp
  nowUpdated :: Timestamp
  dateNow :: int
  flightJson :: string
  widgetEvent :: WidgetEvent
  updateFault :: "FirestoreError option"
  nowPaid :: Timestamp

text \<open>
  The body of the \<open>try\<close> block. It returns the store as the steps that ran left it,
  and either the message of the exception that ended the block (\<open>Inl\<close>) or the route
  navigated to, if any (\<open>Inr\<close>).
\<close>

definition paymentSteps :: "RatesState \<Rightarrow> Currency \<Rightarrow> PaymentRun \<Rightarrow> User \<Rightarrow> BookingPage \<Rightarrow> Store \<Rightarrow> Store \<times> (string + string option)" where
  "paymentSteps exchangeRates selectedCurrency run u page db =
     (case flightInfo page of
        None \<Rightarrow> (db, Inl ''Cannot read properties of null (reading 'flight')'')
      | Some info \<Rightarrow>
          (case convertPrice exchangeRates selectedCurrency
                  (parseFloat (total (price (flight info))))
                  (price_currency (price (flight info))) of
             Inl e \<Rightarrow> (db, Inl (jsMessage e))
           | Inr priceInSelectedCurrency \<Rightarrow>
           case createBooking (addDocOutcome run) (randoms run) (nowCreated run) (nowUpdated run) db
                  \<lparr>nb_userId = uid u,
                   nb_userEmail = (case email u of None \<Rightarrow> [] | Some e \<Rightarrow> e),
                   nb_flightId = offer_id (flight info),
                   nb_origin = sp_origin (searchParams info),
                   nb_destination = sp_destination (searchParams info),
                   nb_departureDate = sp_departureDate (searchParams info),
                   nb_returnDate = Some (sp_returnDate (searchParams info)),
                   nb_passengers = form_passengers page,
                   nb_totalPrice = priceInSelectedCurrency,
                   nb_currency = code selectedCurrency,
                   nb_contactEmail = form_contactEmail page,
                   nb_contactPhone = form_contactPhone page,
                   nb_paymentStatus = PaymentPending,
                   nb_paymentReference = None,
                   nb_flightData = flightJson run,
                   nb_status = Pending\<rparr> of
                Inl e \<Rightarrow> (db, Inl (errorMessage e))
              | Inr (bookingId, db1) \<Rightarrow>
                  (let paymentReference' = ''PAY-'' @ showInt (dateNow run) @ ''-'' @ bookingId;
                       amountInMinorUnits = math_round (num_mul priceInSelectedCurrency (Val 100))
                   in case initializePayment
                             \<lparr>config_email = form_contactEmail page,
                              config_amount = amountInMinorUnits,
                              config_currency = code selectedCurrency,
                              config_reference = paymentReference',
                              config_metadata =
                                \<lparr>meta_bookingId = bookingId,
                                 meta_flightId = offer_id (flight info),
                                 meta_passengers = length (form_passengers page)\<rparr>\<rparr>
                             (widgetEvent run) of
                        Inl m \<Rightarrow> (db1, Inl m)
                      | Inr responseStatus \<Rightarrow>
                          if responseStatus = ''success'' then
                            (case updateBookingPayment (updateFault run) (nowPaid run) db1
                                    bookingId completed paymentReference' of
                               Inl e \<Rightarrow> (db1, Inl (errorMessage e))
                             | Inr db2 \<Rightarrow> (db2, Inr (Some (''/booking-confirmation/'' @ bookingId))))
                          else (db1, Inr None))))"

text \<open>
  \<open>handlePayment\<close>: the guards, then the \<open>try\<close> block with its \<open>catch\<close>
  (\<open>setError(err.message || "Failed to complete booking. Please try again.")\<close>) and
  \<open>finally\<close> (\<open>setLoading(false)\<close>).
\<close>

definition handlePayment :: "RatesState \<Rightarrow> Currency \<Rightarrow> PaymentRun \<Rightarrow> BookingPage \<times> Store \<Rightarrow> BookingPage \<times> Store" where
  "handlePayment exchangeRates selectedCurrency run st =
     (let page = fst st; db = snd st
      in case user page of
           None \<Rightarrow> (page\<lparr>navigatedTo := Some ''/login''\<rparr>, db)
         | Some u \<Rightarrow>
             (case validateForm page of
                Some m \<Rightarrow> (page\<lparr>error := Some m\<rparr>, db)
              | None \<Rightarrow>
                  (let page1 = page\<lparr>loading := True, error := None\<rparr>
                   in case paymentSteps exchangeRates selectedCurrency run u page1 db of
                        (db', Inl m) \<Rightarrow>
                          (page1\<lparr>error :=
                                    Some (if m = [] then ''Failed to complete booking. Please try again.''
                                          else m),
                                 loading := False\<rparr>, db')
                      | (db', Inr None) \<Rightarrow> (page1\<lparr>loading := False\<rparr>, db')
                      | (db', Inr (Some route)) \<Rightarrow>
                          (page1\<lparr>selectedFlightStored := False,
                                 navigatedTo := Some route,
                                 loading := False\<rparr>, db'))))"

section \<open>The bookings list (pages/booking/MyBookings.tsx)\<close>

text \<open>A listed booking: \<open>BookingData & { id: string }\<close>.\<close>

record BookingRow =
  row_id :: string
  row_data :: BookingData

text \<open>The status filter: \<open>"all" | "confirmed" | "pending" | "cancelled"\<close>.\<close>

datatype StatusFilter = FilterAll | FilterStatus BookingStatus

record MyBookingsPage =
  bookings :: "BookingRow list"
  filteredBookings :: "BookingRow list"
  list_loading :: bool
  list_error :: "string option"
  statusFilter :: StatusFilter
  expandedBooking :: "string option"
  cancelling :: "string option"
  alertText :: "string option"

text \<open>\<open>filterBookings\<close>, the effect that runs when \<open>bookings\<close> or \<open>statusFilter\<close> changed.\<close>

definition filterBookings :: "MyBookingsPage \<Rightarrow> MyBookingsPage" where
  "filterBookings page =
     (case statusFilter page of
        FilterAll \<Rightarrow> page\<lparr>filteredBookings := bookings page\<rparr>
      | FilterStatus s \<Rightarrow>
          page\<lparr>filteredBookings := filter (\<lambda>b. status (row_data b) = s) (bookings page)\<rparr>)"

text \<open>
  \<open>new Date(booking.departureDate) < new Date()\<close>. The time value of
  \<open>new Date(s)\<close> for a string \<open>s\<close> is the argument \<open>dateValue\<close> (\<open>NaN\<close> for an
  invalid date); \<open>now\<close> is the clock reading when the row is rendered.
\<close>

definition isPastFlight :: "(string \<Rightarrow> number) \<Rightarrow> Timestamp \<Rightarrow> BookingData \<Rightarrow> bool" where
  "isPastFlight dateValue now booking =
     num_less (dateValue (departureDate booking)) (Val (of_int now))"

text \<open>
  What a rendered row offers for cancelling: whether its cancel button is there, and
  whether the button is disabled (\<open>disabled={cancelling === booking.id}\<close>).
\<close>

record RowView =
  view_id :: string
  cancelButton :: bool
  cancelDisabled :: bool

text \<open>
  The callback that renders one row (lines 486 to 955), as far as it decides whether the
  row appears and with which cancel button. \<open>flightData\<close> holds the text that
  \<open>JSON.stringify\<close> gave for the offer when the booking was made; the argument
  \<open>parseOffer\<close> is \<open>JSON.parse\<close> on such text, and \<open>Inl\<close> on any other text:
  there \<open>JSON.parse\<close> throws, or the value it returns lacks \<open>itineraries\<close> and the
  read \<open>flightData.itineraries[0]\<close> throws.

  The statements that can throw, in the order they run: \<open>JSON.parse\<close>;
  \<open>outbound.segments.length\<close> when there is no first itinerary; \<open>formatPrice\<close>;
  \<open>outbound.segments[0].departure\<close> when the outbound leg has no segment; and, for a
  round trip with a second itinerary, \<open>returnFlight.segments[0].departure\<close> when that
  leg has no segment. The button is the expression
  \<open>booking.status === "confirmed" && !isPastFlight && (...)\<close>.
\<close>

definition renderRow :: "(string \<Rightarrow> JsError + FlightOffer) \<Rightarrow> (string \<Rightarrow> number) \<Rightarrow> RatesState \<Rightarrow> Currency \<Rightarrow> Timestamp \<Rightarrow> string option \<Rightarrow> BookingRow \<Rightarrow> JsError + RowView" where
  "renderRow parseOffer dateValue exchangeRates selectedCurrency now cancelling' booking =
     (case parseOffer (flightData (row_data booking)) of
        Inl e \<Rightarrow> Inl e
      | Inr flightData' \<Rightarrow>
          (let isPastFlight' = isPastFlight dateValue now (row_data booking);
               isRoundTrip = (case returnDate (row_data booking) of
                                None \<Rightarrow> False
                              | Some r \<Rightarrow> r \<noteq> [])
           in case itineraries flightData' of
                [] \<Rightarrow> Inl (TypeError ''Cannot read properties of undefined (reading 'segments')'')
              | outbound # others \<Rightarrow>
                  (let returnFlight = (if isRoundTrip
                                       then (case others of [] \<Rightarrow> None | r # _ \<Rightarrow> Some r)
                                       else None)
                   in case formatPrice exchangeRates selectedCurrency
                             (totalPrice (row_data booking)) (currency (row_data booking)) of
                        Inl e \<Rightarrow> Inl e
                      | Inr priceText \<Rightarrow>
                          if segments outbound = [] then
                            Inl (TypeError ''Cannot read properties of undefined (reading 'departure')'')
                          else if (case returnFlight of
                                     None \<Rightarrow> False
                                   | Some r \<Rightarrow> segments r = []) then
                            Inl (TypeError ''Cannot read properties of undefined (reading 'departure')'')
                          else
                            Inr \<lparr>view_id = row_id booking,
                                 cancelButton = (status (row_data booking) = Confirmed
                                                 \<and> \<not> isPastFlight'),
                                 cancelDisabled = (cancelling' = Some (row_id booking))\<rparr>)))"

text \<open>\<open>filteredBookings.map(...)\<close>: the first row that throws ends the rendering.\<close>

fun renderRows :: "(BookingRow \<Rightarrow> JsError + RowView) \<Rightarrow> BookingRow list \<Rightarrow> JsError + RowView list" where
  "renderRows callback [] = Inr []"
| "renderRows callback (booking # rest) =
     (case callback booking of
        Inl e \<Rightarrow> Inl e
      | Inr v \<Rightarrow>
          (case renderRows callback rest of
             Inl e \<Rightarrow> Inl e
           | Inr vs \<Rightarrow> Inr (v # vs)))"

text \<open>
  The rows the page shows at the clock reading \<open>now\<close>: none while it is loading or
  shows its error view, otherwise the rows of \<open>filteredBookings\<close>. An \<open>Inl\<close> is a
  rendering that threw: then nothing of the page is on the screen.
\<close>

definition renderList :: "(string \<Rightarrow> JsError + FlightOffer) \<Rightarrow> (string \<Rightarrow> number) \<Rightarrow> RatesState \<Rightarrow> Currency \<Rightarrow> Timestamp \<Rightarrow> MyBookingsPage \<Rightarrow> JsError + RowView list" where
  "renderList parseOffer dateValue exchangeRates selectedCurrency now page =
     (if list_loading page then Inr []
      else if (case list_error page of None \<Rightarrow> False | Some m \<Rightarrow> m \<noteq> []) then Inr []
      else renderRows
             (renderRow parseOffer dateValue exchangeRates selectedCurrency now (cancelling page))
             (filteredBookings page))"

text \<open>
  Whether the page rendered at \<open>now\<close> has a cancel button that can be clicked for the
  booking \<open>bookingId\<close>.
\<close>

definition cancelOffered :: "(string \<Rightarrow> JsError + FlightOffer) \<Rightarrow> (string \<Rightarrow> number) \<Rightarrow> RatesState \<Rightarrow> Currency \<Rightarrow> Timestamp \<Rightarrow> MyBookingsPage \<Rightarrow> string \<Rightarrow> bool" where
  "cancelOffered parseOffer dateValue exchangeRates selectedCurrency now page bookingId =
     (case renderList parseOffer dateValue exchangeRates selectedCurrency now page of
        Inl e \<Rightarrow> False
      | Inr views \<Rightarrow>
          list_ex (\<lambda>v. view_id v = bookingId \<and> cancelButton v \<and> \<not> cancelDisabled v) views)"

text \<open>
  \<open>handleCancelBooking(bookingId)\<close>; \<open>answer\<close> is the user's answer to the
  \<open>confirm\<close> dialog, \<open>stamp\<close> the clock reading of \<open>Timestamp.now()\<close> in
  \<open>cancelBooking\<close>. The handler looks at neither the status nor the departure date.
  After \<open>setBookings\<close> the effect \<open>filterBookings\<close> runs.
\<close>

definition handleCancelBooking :: "bool \<Rightarrow> FirestoreError option \<Rightarrow> Timestamp \<Rightarrow> string \<Rightarrow> MyBookingsPage \<times> Store \<Rightarrow> MyBookingsPage \<times> Store" where
  "handleCancelBooking answer fault stamp bookingId st =
     (let page = fst st; db = snd st
      in if \<not> answer then (page, db)
         else (case cancelBooking fault stamp db bookingId of
                 Inr db' \<Rightarrow>
                   (filterBookings
                      (page\<lparr>bookings :=
                               map (\<lambda>b. if row_id b = bookingId
                                         then b\<lparr>row_data := (row_data b)\<lparr>status := Cancelled\<rparr>\<rparr>
                                         else b) (bookings page),
                            cancelling := None\<rparr>), db')
               | Inl e \<Rightarrow>
                   (page\<lparr>alertText := Some ''Failed to cancel booking. Please try again.'',
                         cancelling := None\<rparr>, db)))"

text \<open>
  The cancel action on the booking \<open>bookingId\<close>: the page is rendered at the clock
  reading \<open>now\<close>; if that rendering has a cancel button to click for the booking, the
  click runs the handler, whose update is stamped \<open>stamp\<close>; otherwise there is nothing
  to click and nothing happens.
\<close>

definition cancelAction :: "(string \<Rightarrow> JsError + FlightOffer) \<Rightarrow> (string \<Rightarrow> number) \<Rightarrow> RatesState \<Rightarrow> Currency \<Rightarrow> Timestamp \<Rightarrow> bool \<Rightarrow> FirestoreError option \<Rightarrow> Timestamp \<Rightarrow> string \<Rightarrow> MyBookingsPage \<times> Store \<Rightarrow> MyBookingsPage \<times> Store" where
  "cancelAction parseOffer dateValue exchangeRates selectedCurrency now answer fault stamp bookingId st =
     (if cancelOffered parseOffer dateValue exchangeRates selectedCurrency now (fst st) bookingId
      then handleCancelBooking answer fault stamp bookingId st
      else st)"

section \<open>The results page (pages/FlightResults.tsx)\<close>

record FlightSearchResponse =
  response_data :: "FlightOffer list"
  carriers :: "string \<rightharpoonup> string"
  aircraft :: "string \<rightharpoonup> string"

datatype SortBy = SortByPrice | SortByDuration

text \<open>\<open>getNumberOfStops\<close>: \<open>flight.itineraries[0].segments.length - 1\<close>.\<close>

definition getNumberOfStops :: "FlightOffer \<Rightarrow> JsError + int" where
  "getNumberOfStops flight' =
     (case itineraries flight' of
        [] \<Rightarrow> Inl (TypeError ''Cannot read properties of undefined (reading 'segments')'')
      | outbound # _ \<Rightarrow> Inr (int (length (segments outbound)) - 1))"

text \<open>
  \<open>duration.match(/PT(\d+H)?(\d+M)?/)\<close>. The pattern matches at the first place where
  \<open>PT\<close> occurs (both groups are optional), and not at all without one. A group
  \<open>(\d+X)?\<close> takes part when the longest run of digits at that place is not empty and
  \<open>X\<close> follows it.
\<close>

fun afterPT :: "string \<Rightarrow> string option" where
  "afterPT [] = None"
| "afterPT [c] = None"
| "afterPT (c # d # r) = (if c = CHR ''P'' \<and> d = CHR ''T'' then Some r else afterPT (d # r))"

definition digitsThen :: "char \<Rightarrow> string \<Rightarrow> (string \<times> string) option" where
  "digitsThen x s =
     (let ds = takeWhile isDigit s
      in case dropWhile isDigit s of
           [] \<Rightarrow> None
         | c # r \<Rightarrow> if ds \<noteq> [] \<and> c = x then Some (ds @ [c], r) else None)"

text \<open>\<open>parseDuration\<close>: hours and minutes of the match, each 0 when its group is absent.\<close>

definition parseDuration :: "string \<Rightarrow> number" where
  "parseDuration d =
     (case afterPT d of
        None \<Rightarrow> num_add (num_mul (Val 0) (Val 60)) (Val 0)
      | Some s \<Rightarrow>
          (let g1 = digitsThen (CHR ''H'') s;
               hours = (case g1 of Some (m1, _) \<Rightarrow> parseInt m1 | None \<Rightarrow> Val 0);
               s' = (case g1 of Some (_, r) \<Rightarrow> r | None \<Rightarrow> s);
               minutes = (case digitsThen (CHR ''M'') s' of
                            Some (m2, _) \<Rightarrow> parseInt m2
                          | None \<Rightarrow> Val 0)
           in num_add (num_mul hours (Val 60)) minutes))"

text \<open>
  \<open>Array.prototype.sort(comparefn)\<close>: a stable sort, here by insertion from the right.
  An element moves behind another when \<open>comparefn\<close> is positive for the pair; a result of
  \<open>NaN\<close> counts as 0. The second version is for a \<open>comparefn\<close> that may throw.
\<close>

fun insertBy :: "('a \<Rightarrow> 'a \<Rightarrow> number) \<Rightarrow> 'a \<Rightarrow> 'a list \<Rightarrow> 'a list" where
  "insertBy comparefn x [] = [x]"
| "insertBy comparefn x (y # ys) =
     (if num_less (Val 0) (comparefn x y) then y # insertBy comparefn x ys else x # y # ys)"

fun array_sort :: "('a \<Rightarrow> 'a \<Rightarrow> number) \<Rightarrow> 'a list \<Rightarrow> 'a list" where
  "array_sort comparefn [] = []"
| "array_sort comparefn (x # xs) = insertBy comparefn x (array_sort comparefn xs)"

fun insertByTry :: "('a \<Rightarrow> 'a \<Rightarrow> JsError + number) \<Rightarrow> 'a \<Rightarrow> 'a list \<Rightarrow> JsError + 'a list" where
  "insertByTry comparefn x [] = Inr [x]"
| "insertByTry comparefn x (y # ys) =
     (case comparefn x y of
        Inl e \<Rightarrow> Inl e
      | Inr v \<Rightarrow>
          if num_less (Val 0) v then
            (case insertByTry comparefn x ys of Inl e \<Rightarrow> Inl e | Inr zs \<Rightarrow> Inr (y # zs))
          else Inr (x # y # ys))"

fun array_sortTry :: "('a \<Rightarrow> 'a \<Rightarrow> JsError + number) \<Rightarrow> 'a list \<Rightarrow> JsError + 'a list" where
  "array_sortTry comparefn [] = Inr []"
| "array_sortTry comparefn (x # xs) =
     (case array_sortTry comparefn xs of
        Inl e \<Rightarrow> Inl e
      | Inr ys \<Rightarrow> insertByTry comparefn x ys)"

text \<open>The stages of \<open>filteredFlights\<close>, in the order the code applies them.\<close>

text \<open>
  \<open>if (maxPrice !== null) filtered = filtered.filter((flight) =>
  parseFloat(flight.price.total) <= maxPrice)\<close>
\<close>

definition priceCeilingFilter :: "number option \<Rightarrow> FlightOffer list \<Rightarrow> FlightOffer list" where
  "priceCeilingFilter maxPrice filtered =
     (case maxPrice of
        None \<Rightarrow> filtered
      | Some ceiling' \<Rightarrow>
          filter (\<lambda>flight'. num_le (parseFloat (total (price flight'))) ceiling') filtered)"

text \<open>
  \<open>if (selectedStops.length > 0) filtered = filtered.filter((flight) =>
  selectedStops.includes(getNumberOfStops(flight)))\<close>; the callback may throw.
\<close>

fun filterStops :: "int list \<Rightarrow> FlightOffer list \<Rightarrow> JsError + FlightOffer list" where
  "filterStops selectedStops [] = Inr []"
| "filterStops selectedStops (flight' # rest) =
     (case getNumberOfStops flight' of
        Inl e \<Rightarrow> Inl e
      | Inr n \<Rightarrow>
          (case filterStops selectedStops rest of
             Inl e \<Rightarrow> Inl e
           | Inr kept \<Rightarrow> Inr (if n \<in> set selectedStops then flight' # kept else kept)))"

definition stopCountFilter :: "int list \<Rightarrow> FlightOffer list \<Rightarrow> JsError + FlightOffer list" where
  "stopCountFilter selectedStops filtered =
     (if length selectedStops > 0 then filterStops selectedStops filtered else Inr filtered)"

text \<open>
  \<open>if (selectedAirlines.length > 0) filtered = filtered.filter((flight) =>
  flight.validatingAirlineCodes.some((code) => selectedAirlines.includes(code)))\<close>
\<close>

definition airlineFilter :: "string list \<Rightarrow> FlightOffer list \<Rightarrow> FlightOffer list" where
  "airlineFilter selectedAirlines filtered =
     (if length selectedAirlines > 0
      then filter (\<lambda>flight'. list_ex (\<lambda>c. c \<in> set selectedAirlines)
                                (validatingAirlineCodes flight')) filtered
      else filtered)"

text \<open>
  The two comparison functions, and the sort by the current key.

  The duration comparison calls \<open>parseDuration\<close>, a \<open>const\<close> of the component's
  body. Evaluating the call reads that binding first, then the arguments
  (\<open>a.itineraries[0].duration\<close>), for \<open>a\<close> and then for \<open>b\<close>. The binding
  is an argument here: \<open>None\<close> while its declaration has not been evaluated.
\<close>

definition comparePrice :: "FlightOffer \<Rightarrow> FlightOffer \<Rightarrow> number" where
  "comparePrice a b = num_sub (parseFloat (total (price a))) (parseFloat (total (price b)))"

definition outboundDuration :: "(string \<Rightarrow> number) option \<Rightarrow> FlightOffer \<Rightarrow> JsError + number" where
  "outboundDuration binding a =
     (case binding of
        None \<Rightarrow> Inl (ReferenceError ''Cannot access 'parseDuration' before initialization'')
      | Some parseDuration' \<Rightarrow>
          (case itineraries a of
             [] \<Rightarrow> Inl (TypeError ''Cannot read properties of undefined (reading 'duration')'')
           | outbound # _ \<Rightarrow> Inr (parseDuration' (duration outbound))))"

definition compareDuration :: "(string \<Rightarrow> number) option \<Rightarrow> FlightOffer \<Rightarrow> FlightOffer \<Rightarrow> JsError + number" where
  "compareDuration binding a b =
     (case outboundDuration binding a of
        Inl e \<Rightarrow> Inl e
      | Inr durationA \<Rightarrow>
          (case outboundDuration binding b of
             Inl e \<Rightarrow> Inl e
           | Inr durationB \<Rightarrow> Inr (num_sub durationA durationB)))"

definition sortFlights :: "(string \<Rightarrow> number) option \<Rightarrow> SortBy \<Rightarrow> FlightOffer list \<Rightarrow> JsError + FlightOffer list" where
  "sortFlights binding sortBy filtered =
     (if sortBy = SortByPrice then Inr (array_sort comparePrice filtered)
      else array_sortTry (compareDuration binding) filtered)"

text \<open>
  \<open>filteredFlights\<close>: the callback of the \<open>useMemo\<close> at lines 134 to 171.
  \<open>useMemo\<close> runs its callback during its own call, when the component's body has
  been evaluated down to that line only; \<open>const parseDuration\<close> stands further down
  (line 205), so the sort sees that binding uninitialised. (Compiled to a \<open>var\<close>, the
  binding would hold \<open>undefined\<close> at that point and the call would throw a
  \<open>TypeError\<close>; the sort fails either way.)
\<close>

definition filteredFlights :: "FlightSearchResponse option \<Rightarrow> number option \<Rightarrow> int list \<Rightarrow> string list \<Rightarrow> SortBy \<Rightarrow> JsError + FlightOffer list" where
  "filteredFlights flightData' maxPrice selectedStops selectedAirlines sortBy =
     (case flightData' of
        None \<Rightarrow> Inr []
      | Some response \<Rightarrow>
          (case stopCountFilter selectedStops
                  (priceCeilingFilter maxPrice (response_data response)) of
             Inl e \<Rightarrow> Inl e
           | Inr filtered \<Rightarrow> sortFlights None sortBy (airlineFilter selectedAirlines filtered)))"

section \<open>The price graph (pages/FlightResults.tsx)\<close>

text \<open>\<open>Math.min\<close> and \<open>Math.max\<close> of two arguments: \<open>NaN\<close> if either is.\<close>

fun math_min2 :: "number \<Rightarrow> number \<Rightarrow> number" where
  "math_min2 (Val a) (Val b) = Val (min a b)"
| "math_min2 _ _ = NaN"

fun math_max2 :: "number \<Rightarrow> number \<Rightarrow> number" where
  "math_max2 (Val a) (Val b) = Val (max a b)"
| "math_max2 _ _ = NaN"

text \<open>
  \<open>priceRanges[rangeLabel] = (priceRanges[rangeLabel] || 0) + 1\<close> on an object whose
  keys are listed in the order of their first insertion.
\<close>

fun increment :: "string \<Rightarrow> (string \<times> nat) list \<Rightarrow> (string \<times> nat) list" where
  "increment rangeLabel [] = [(rangeLabel, 1)]"
| "increment rangeLabel ((k, n) # rest) =
     (if k = rangeLabel then (k, n + 1) # rest else (k, n) # increment rangeLabel rest)"

record GraphPoint =
  range :: string
  count :: nat
  point_price :: number

text \<open>
  \<open>priceGraphData\<close>. For one flight, \<open>rangeLabelOf\<close> is the body of the
  \<open>forEach\<close> up to the label; \<open>countRanges\<close> is the \<open>forEach\<close>, which ends
  with the first flight whose label throws.
\<close>

definition rangeLabelOf :: "RatesState \<Rightarrow> Currency \<Rightarrow> number \<Rightarrow> number \<Rightarrow> string \<Rightarrow> FlightOffer \<Rightarrow> JsError + string" where
  "rangeLabelOf exchangeRates selectedCurrency minPrice rangeSize currency' flight' =
     (let price' = parseFloat (total (price flight'));
          rangeIndex = math_floor (num_div (num_sub price' minPrice) rangeSize)
      in formatPrice exchangeRates selectedCurrency
           (math_round (num_add minPrice (num_mul rangeIndex rangeSize))) currency')"

fun countRanges :: "(FlightOffer \<Rightarrow> JsError + string) \<Rightarrow> FlightOffer list \<Rightarrow> (string \<times> nat) list \<Rightarrow> JsError + (string \<times> nat) list" where
  "countRanges labelOf [] priceRanges = Inr priceRanges"
| "countRanges labelOf (flight' # rest) priceRanges =
     (case labelOf flight' of
        Inl e \<Rightarrow> Inl e
      | Inr rangeLabel \<Rightarrow> countRanges labelOf rest (increment rangeLabel priceRanges))"

definition priceGraphData :: "RatesState \<Rightarrow> Currency \<Rightarrow> FlightOffer list \<Rightarrow> JsError + GraphPoint list" where
  "priceGraphData exchangeRates selectedCurrency flights =
     (case flights of
        [] \<Rightarrow> Inr []
      | first # others \<Rightarrow>
          (let prices = map (\<lambda>f. parseFloat (total (price f))) others;
               minPrice = foldl math_min2 (parseFloat (total (price first))) prices;
               maxPriceValue = foldl math_max2 (parseFloat (total (price first))) prices;
               rangeSize = num_div (num_sub maxPriceValue minPrice) (Val 10);
               currency' = (if price_currency (price first) = [] then ''USD''
                            else price_currency (price first))
           in case countRanges
                     (rangeLabelOf exchangeRates selectedCurrency minPrice rangeSize currency')
                     flights [] of
                Inl e \<Rightarrow> Inl e
              | Inr priceRanges \<Rightarrow>
                  Inr (array_sort (\<lambda>a b. num_sub (point_price a) (point_price b))
                         (map (\<lambda>(range', count').
                                 \<lparr>range = range', count = count',
                                  point_price = parseInt (filter isDigit range')\<rparr>) priceRanges))))"

section \<open>Sample data\<close>

text \<open>Concrete inputs on which the properties below are exercised.\<close>

definition sampleSegment :: "string \<Rightarrow> string \<Rightarrow> Segment" where
  "sampleSegment a b =
     \<lparr>departure_iataCode = a, departure_at = ''2030-01-01T08:00:00'',
      arrival_iataCode = b, arrival_at = ''2030-01-01T10:00:00'',
      carrierCode = ''SA'', flightNumber = ''303'', aircraft_code = ''738'',
      segment_duration = ''PT2H''\<rparr>"

definition sampleOffer :: "string \<Rightarrow> string \<Rightarrow> string \<Rightarrow> nat \<Rightarrow> FlightOffer" where
  "sampleOffer i p d n =
     \<lparr>offer_id = i,
      price = \<lparr>total = p, price_currency = ''USD''\<rparr>,
      itineraries = [\<lparr>duration = d, segments = replicate n (sampleSegment ''JNB'' ''CPT'')\<rparr>],
      validatingAirlineCodes = [''SA''],
      numberOfBookableSeats = 9\<rparr>"

definition sampleSearch :: SearchParams where
  "sampleSearch =
     \<lparr>sp_origin = ''JNB'', sp_destination = ''CPT'', sp_departureDate = ''2030-01-01'',
      sp_returnDate = ''2030-01-08'', tripType = ''round-trip'',
      adults = Some 2, children = Some 1, infants = Some 0\<rparr>"

definition sampleUser :: User where
  "sampleUser = \<lparr>uid = ''u1'', email = Some ''a@b.c''\<rparr>"

text \<open>
  The text \<open>JSON.stringify\<close> gives for the offer
  \<open>sampleOffer ''1'' ''100.50'' ''PT2H'' 1\<close> of the sample page.
\<close>

definition sampleOfferJson :: string where
  \<open>sampleOfferJson = ''{"id":"1","price":{"total":"100.50","currency":"USD"},"itineraries":[{"duration":"PT2H","segments":[{"departure":{"iataCode":"JNB","at":"2030-01-01T08:00:00"},"arrival":{"iataCode":"CPT","at":"2030-01-01T10:00:00"},"carrierCode":"SA","number":"303","aircraft":{"code":"738"},"duration":"PT2H"}]}],"validatingAirlineCodes":["SA"],"numberOfBookableSeats":9}''\<close>

definition sampleRun :: "WidgetEvent \<Rightarrow> PaymentRun" where
  "sampleRun ev =
     \<lparr>addDocOutcome = Inr ''doc1'', randoms = [0, 0, 0, 0, 0, 0],
      nowCreated = 1000, nowUpdated = 1001, dateNow = 1002,
      flightJson = sampleOfferJson,
      widgetEvent = ev, updateFault = None, nowPaid = 2000\<rparr>"

definition sampleEvents :: "FormEvent list" where
  "sampleEvents =
     [ContactPhoneInput ''0800'',
      PassengerInput 0 FieldFirstName ''A'', PassengerInput 0 FieldLastName ''Z'',
      PassengerInput 0 FieldDateOfBirth ''1990-01-01'',
      PassengerInput 1 FieldFirstName ''B'', PassengerInput 1 FieldLastName ''Z'',
      PassengerInput 1 FieldDateOfBirth ''1991-01-01'',
      PassengerInput 2 FieldFirstName ''C'', PassengerInput 2 FieldLastName ''Z'',
      PassengerInput 2 FieldDateOfBirth ''2020-01-01'']"

definition samplePage :: BookingPage where
  "samplePage =
     foldl formEvent
       (mountBooking (Some \<lparr>flight = sampleOffer ''1'' ''100.50'' ''PT2H'' 1, searchParams = sampleSearch\<rparr>)
          (initialBookingPage (Some sampleUser) True))
       sampleEvents"

definition offerA :: FlightOffer where "offerA = sampleOffer ''a'' ''100'' ''PT3H'' 1"
definition offerB :: FlightOffer where "offerB = sampleOffer ''b'' ''250'' ''PT2H30M'' 2"
definition offerC :: FlightOffer where "offerC = sampleOffer ''c'' ''80'' ''PT45M'' 1"
definition offerD :: FlightOffer where "offerD = sampleOffer ''d'' ''400'' ''PT150M'' 3"
definition offerE :: FlightOffer where "offerE = sampleOffer ''e'' ''100.00'' ''PT1H'' 2"

text \<open>
  The text \<open>JSON.stringify\<close> gives for \<open>offerA\<close>, and a \<open>JSON.parse\<close> that
  knows this text and the empty object.
\<close>

definition offerAJson :: string where
  \<open>offerAJson = ''{"id":"a","price":{"total":"100","currency":"USD"},"itineraries":[{"duration":"PT3H","segments":[{"departure":{"iataCode":"JNB","at":"2030-01-01T08:00:00"},"arrival":{"iataCode":"CPT","at":"2030-01-01T10:00:00"},"carrierCode":"SA","number":"303","aircraft":{"code":"738"},"duration":"PT2H"}]}],"validatingAirlineCodes":["SA"],"numberOfBookableSeats":9}''\<close>

definition sampleParse :: "string \<Rightarrow> JsError + FlightOffer" where
  "sampleParse s =
     (if s = offerAJson then Inr offerA
      else if s = ''{}'' then Inl (TypeError ''Cannot read properties of undefined (reading '0')'')
      else Inl (SyntaxError ''Unexpected token''))"

definition sampleBooking :: "BookingStatus \<Rightarrow> PaymentStatus \<Rightarrow> string \<Rightarrow> BookingData" where
  "sampleBooking st ps dep =
     \<lparr>userId = ''u1'', userEmail = ''a@b.c'', flightId = ''a'', origin = ''JNB'',
      destination = ''CPT'', departureDate = dep, returnDate = Some [],
      passengers = [blankPassenger Adult], totalPrice = Val 100, currency = ''USD'',
      contactEmail = ''a@b.c'', contactPhone = ''0800'', paymentStatus = ps,
      paymentReference = None, flightData = offerAJson, createdAt = 1000, updatedAt = 1001,
      bookingReference = ''BKAAAAAA'', status = st\<rparr>"

text \<open>
  The time values of two dates: 1 January 2030 and 1 January 2020, 00:00 UTC, in
  milliseconds.
\<close>

definition sampleDateValue :: "string \<Rightarrow> number" where
  "sampleDateValue s =
     (if s = ''2030-01-01'' then Val 1893456000000
      else if s = ''2020-01-01'' then Val 1577836800000
      else NaN)"

definition sampleRow :: "BookingStatus \<Rightarrow> string \<Rightarrow> BookingRow" where
  "sampleRow st dep = \<lparr>row_id = ''doc1'', row_data = sampleBooking st PaymentCompleted dep\<rparr>"

definition sampleList :: "BookingStatus \<Rightarrow> string \<Rightarrow> MyBookingsPage \<times> Store" where
  "sampleList st dep =
     (\<lparr>bookings = [sampleRow st dep], filteredBookings = [sampleRow st dep],
       list_loading = False, list_error = None, statusFilter = FilterAll,
       expandedBooking = None, cancelling = None, alertText = None\<rparr>,
      [''doc1'' \<mapsto> sampleBooking st PaymentCompleted dep])"

definition sampleResponse :: FlightSearchResponse where
  "sampleResponse =
     \<lparr>response_data = [offerA, offerB, offerC, offerD],
      carriers = [''SA'' \<mapsto> ''South African Airways''], aircraft = Map.empty\<rparr>"

definition elevenOffers :: "FlightOffer list" where
  "elevenOffers =
     map (\<lambda>p. sampleOffer ''x'' p ''PT2H'' 1)
       [''100'', ''110'', ''120'', ''130'', ''140'', ''150'', ''160'', ''170'', ''180'',
        ''190'', ''200'']"

section \<open>Properties of the currency converter\<close>

lemma noRate_iff:
  "noRate t c \<longleftrightarrow> t c = Some 0 \<or> (t c = None \<and> c \<notin> set inheritedNames)"
  by (simp add: noRate_def readRate_def split: option.split)

lemma convertPrice_passthrough:
  "noRate t from \<or> noRate t (code sel) \<Longrightarrow> convertPrice (Some t) sel p from = Inr p"
  by (simp add: convertPrice_def)

lemma convertPrice_formula_number:
  assumes "t from = Some rf" and "t (code sel) = Some rs" and "rf \<noteq> 0" and "rs \<noteq> 0"
  shows "convertPrice (Some t) sel amount from = Inr (num_mul (num_div amount (Val rf)) (Val rs))"
  using assms by (simp add: convertPrice_def noRate_def readRate_def)

lemma convertPrice_formula:
  assumes "t from = Some rf" and "t (code sel) = Some rs" and "rf \<noteq> 0" and "rs \<noteq> 0"
  shows "convertPrice (Some t) sel (Val p) from = Inr (Val (p / rf * rs))"
  using assms by (simp add: convertPrice_def noRate_def readRate_def)

text \<open>
  C8, as stated, fails in three ways. A rate that is present in the table but equal to
  zero is treated like a missing one: with USD at 1 and ZAR at 0 the stated formula gives
  \<open>100 / 1 * 0 = 0\<close>, the code returns 100. A source code that the table does not list
  but that names a member every object inherits is not treated as missing: from
  \<open>constructor\<close> the result is \<open>NaN\<close>, not the amount. And with no table in the
  state the call throws.
\<close>

theorem convertPrice_zero_rate_counterexample:
  "[''USD'' \<mapsto> (1::rat), ''ZAR'' \<mapsto> 0] ''USD'' = Some 1 \<and>
   [''USD'' \<mapsto> (1::rat), ''ZAR'' \<mapsto> 0] (code ZAR) = Some 0 \<and>
   convertPrice (Some [''USD'' \<mapsto> 1, ''ZAR'' \<mapsto> 0]) ZAR (Val 100) ''USD'' = Inr (Val 100) \<and>
   Val 100 \<noteq> Val (100 / 1 * 0) \<and>
   fallbackRates ''constructor'' = None \<and>
   convertPrice (Some fallbackRates) ZAR (Val 100) ''constructor'' = Inr NaN \<and>
   convertPrice None ZAR (Val 100) ''USD''
     = Inl (TypeError ''Cannot read properties of undefined (reading 'USD')'')"
  by (simp add: convertPrice_def noRate_def readRate_def inheritedNames_def ZAR_def
        fallbackRates_def)

text \<open>
  C8 (amended): on a rate table, \<open>convertPrice\<close> returns
  \<open>(amount / rate[from]) * rate[selected]\<close> when both rates are present and non-zero
  (for a rational amount that is the exact quotient and product, for \<open>NaN\<close> it is
  \<open>NaN\<close>), and returns the input amount unchanged, with no error, when either rate is
  zero, or is absent under a code that is not the name of a member every object inherits.
\<close>

theorem convertPrice_present_nonzero_or_passthrough:
  "(t from = Some rf \<and> t (code sel) = Some rs \<and> rf \<noteq> 0 \<and> rs \<noteq> 0
      \<longrightarrow> convertPrice (Some t) sel (Val p) from = Inr (Val (p / rf * rs)) \<and>
          convertPrice (Some t) sel amount from
            = Inr (num_mul (num_div amount (Val rf)) (Val rs))) \<and>
   (t from = Some 0 \<or> t (code sel) = Some 0 \<or>
    (t from = None \<and> from \<notin> set inheritedNames) \<or>
    (t (code sel) = None \<and> code sel \<notin> set inheritedNames)
      \<longrightarrow> convertPrice (Some t) sel amount from = Inr amount)"
proof (rule conjI; rule impI)
  assume "t from = Some rf \<and> t (code sel) = Some rs \<and> rf \<noteq> 0 \<and> rs \<noteq> 0"
  then show "convertPrice (Some t) sel (Val p) from = Inr (Val (p / rf * rs)) \<and>
          convertPrice (Some t) sel amount from
            = Inr (num_mul (num_div amount (Val rf)) (Val rs))"
    by (simp add: convertPrice_formula convertPrice_formula_number)
next
  assume "t from = Some 0 \<or> t (code sel) = Some 0 \<or>
    (t from = None \<and> from \<notin> set inheritedNames) \<or>
    (t (code sel) = None \<and> code sel \<notin> set inheritedNames)"
  then have "noRate t from \<or> noRate t (code sel)"
    by (auto simp: noRate_iff)
  then show "convertPrice (Some t) sel amount from = Inr amount"
    by (rule convertPrice_passthrough)
qed

text \<open>
  C8 (amended) on the embedded table with ZAR selected: 100 USD are 1850 ZAR, and 100 of a
  currency the table does not list stay 100.
\<close>

theorem convertPrice_present_nonzero_or_passthrough_witness:
  "fallbackRates ''USD'' = Some 1 \<and> fallbackRates (code ZAR) = Some (185 / 10) \<and>
   convertPrice (Some fallbackRates) ZAR (Val 100) ''USD'' = Inr (Val 1850) \<and>
   fallbackRates ''XOF'' = None \<and> ''XOF'' \<notin> set inheritedNames \<and>
   convertPrice (Some fallbackRates) ZAR (Val 100) ''XOF'' = Inr (Val 100)"
proof -
  have a: "fallbackRates ''USD'' = Some 1" "fallbackRates (code ZAR) = Some (185 / 10)"
    and b: "fallbackRates ''XOF'' = None" "''XOF'' \<notin> set inheritedNames"
    by (simp_all add: fallbackRates_def ZAR_def inheritedNames_def)
  from a convertPrice_present_nonzero_or_passthrough
         [where t = fallbackRates and ?from = "''USD''" and rf = 1 and sel = ZAR
            and rs = "185 / 10" and p = 100]
  have "convertPrice (Some fallbackRates) ZAR (Val 100) ''USD'' = Inr (Val (100 / 1 * (185 / 10)))"
    by simp
  moreover from b convertPrice_present_nonzero_or_passthrough
         [where t = fallbackRates and ?from = "''XOF''" and sel = ZAR and amount = "Val 100"]
  have "convertPrice (Some fallbackRates) ZAR (Val 100) ''XOF'' = Inr (Val 100)"
    by simp
  ultimately show ?thesis using a b by simp
qed

text \<open>
  C9: with both rates present in one fixed table, converting \<open>x\<close> from \<open>A\<close> while \<open>B\<close>
  is selected, then converting the result from \<open>B\<close> while \<open>A\<close> is selected, gives \<open>x\<close>
  back, in exact arithmetic.
\<close>

theorem convertPrice_round_trip:
  assumes "t (code A) = Some ra" and "t (code B) = Some rb"
  shows "\<exists>y. convertPrice (Some t) B (Val x) (code A) = Inr y \<and>
             convertPrice (Some t) A y (code B) = Inr (Val x)"
proof (cases "ra = 0 \<or> rb = 0")
  case True
  with assms have "noRate t (code A) \<or> noRate t (code B)"
    by (auto simp: noRate_iff)
  then have "convertPrice (Some t) B (Val x) (code A) = Inr (Val x)"
    and "convertPrice (Some t) A (Val x) (code B) = Inr (Val x)"
    by (auto simp: convertPrice_passthrough)
  then show ?thesis by blast
next
  case False
  with assms have "convertPrice (Some t) B (Val x) (code A) = Inr (Val (x / ra * rb))"
    by (simp add: convertPrice_formula)
  moreover from False assms
  have "convertPrice (Some t) A (Val (x / ra * rb)) (code B) = Inr (Val (x / ra * rb / rb * ra))"
    by (simp add: convertPrice_formula)
  moreover from False have "x / ra * rb / rb * ra = x" by simp
  ultimately show ?thesis by simp
qed

text \<open>C9 on the embedded table: 37 ZAR are 258 KES, and 258 KES are 37 ZAR again.\<close>

theorem convertPrice_round_trip_witness:
  "fallbackRates (code ZAR) = Some (185 / 10) \<and> fallbackRates (code KES) = Some 129 \<and>
   convertPrice (Some fallbackRates) KES (Val 37) (code ZAR) = Inr (Val 258) \<and>
   convertPrice (Some fallbackRates) ZAR (Val 258) (code KES) = Inr (Val 37)"
proof -
  have a: "fallbackRates (code ZAR) = Some (185 / 10)" "fallbackRates (code KES) = Some 129"
    by (simp_all add: fallbackRates_def ZAR_def KES_def)
  have c: "convertPrice (Some fallbackRates) KES (Val 37) (code ZAR) = Inr (Val 258)"
    by (simp add: convertPrice_def noRate_def readRate_def fallbackRates_def ZAR_def KES_def)
  from convertPrice_round_trip [OF a, of 37] c
  have "convertPrice (Some fallbackRates) ZAR (Val 258) (code KES) = Inr (Val 37)"
    by auto
  with a c show ?thesis by simp
qed

section \<open>Properties of the booking lifecycle\<close>

lemma convertPrice_table_total: "\<exists>pr. convertPrice (Some t) sel p from = Inr pr"
  by (simp add: convertPrice_def Let_def)

lemma pushLoop_replicate:
  "pushLoop i n t ps = ps @ replicate (nat (n - i)) (blankPassenger t)"
proof (induction i n t ps rule: pushLoop.induct)
  case (1 i n t ps)
  show ?case
  proof (cases "i < n")
    case True
    then have "nat (n - i) = Suc (nat (n - (i + 1)))" by simp
    with True 1 show ?thesis
      by (subst pushLoop.simps) (simp add: replicate_app_Cons_same)
  next
    case False
    then show ?thesis by (subst pushLoop.simps) simp
  qed
qed

lemma initialPassengers_replicate:
  "initialPassengers sp =
     replicate (nat (boundOf (adults sp))) (blankPassenger Adult)
     @ replicate (nat (orZero (children sp))) (blankPassenger Child)
     @ replicate (nat (orZero (infants sp))) (blankPassenger Infant)"
  by (simp add: initialPassengers_def pushLoop_replicate Let_def)

lemma setField_type [simp]: "passengerType (setField f v p) = passengerType p"
  by (cases f) simp_all

lemma updatePassenger_types:
  "map passengerType (form_passengers (updatePassenger i f v page)) = map passengerType (form_passengers page)"
  by (simp add: updatePassenger_def map_update list_update_same_conv)

lemma updatePassenger_flightInfo [simp]:
  "flightInfo (updatePassenger i f v page) = flightInfo page"
  by (simp add: updatePassenger_def)

lemma formEvent_types:
  "map passengerType (form_passengers (formEvent page e)) = map passengerType (form_passengers page)"
  by (cases e) (simp_all add: updatePassenger_types)

lemma formEvent_flightInfo [simp]: "flightInfo (formEvent page e) = flightInfo page"
  by (cases e) simp_all

lemma formEvents_types:
  "map passengerType (form_passengers (foldl formEvent page es)) = map passengerType (form_passengers page)"
  by (induction es arbitrary: page) (simp_all add: formEvent_types)

lemma formEvents_flightInfo [simp]: "flightInfo (foldl formEvent page es) = flightInfo page"
  by (induction es arbitrary: page) simp_all

lemma createBooking_ok:
  "createBooking (Inr bookingId) rs t1 t2 db nb = Inr (bid, db1) \<Longrightarrow>
     bid = bookingId \<and>
     (\<exists>b. db1 = db(bookingId \<mapsto> b) \<and> status b = nb_status nb \<and>
          paymentStatus b = nb_paymentStatus nb \<and> paymentReference b = nb_paymentReference nb \<and>
          passengers b = nb_passengers nb)"
  by (auto simp: createBooking_def addDoc_def)

lemma createBooking_total:
  "\<exists>db1. createBooking (Inr bookingId) rs t1 t2 db nb = Inr (bookingId, db1)"
  by (simp add: createBooking_def addDoc_def)

lemma createBooking_fails:
  "createBooking (Inl e) rs t1 t2 db nb = Inl e"
  by (simp add: createBooking_def addDoc_def)

lemma updateBookingPayment_Inr:
  "updateBookingPayment fault now db bookingId ps ref = Inr db' \<longleftrightarrow>
     fault = None \<and>
     (\<exists>b. db bookingId = Some b \<and>
          db' = db(bookingId \<mapsto>
                    b\<lparr>paymentStatus := asPaymentStatus ps, paymentReference := Some ref,
                      status := (if ps = completed then Confirmed else Pending),
                      updatedAt := now\<rparr>))"
  by (auto simp: updateBookingPayment_def updateDoc_def split: option.splits)


lemma formEvent_user [simp]: "user (formEvent page e) = user page"
  by (cases e) (simp_all add: updatePassenger_def)

lemma formEvents_user [simp]: "user (foldl formEvent page es) = user page"
  by (induction es arbitrary: page) simp_all

lemma paymentSteps_created:
  assumes "flightInfo page = Some info" and "addDocOutcome run = Inr bookingId"
  shows "\<exists>b. fst (paymentSteps (Some t) cur run u page db) bookingId = Some b \<and>
             passengers b = form_passengers page"
proof -
  obtain pr where pr: "convertPrice (Some t) cur (parseFloat (total (price (flight info))))
                         (price_currency (price (flight info))) = Inr pr"
    using convertPrice_table_total by blast
  let ?nb = "\<lparr>nb_userId = uid u,
                   nb_userEmail = (case email u of None \<Rightarrow> [] | Some e \<Rightarrow> e),
                   nb_flightId = offer_id (flight info),
                   nb_origin = sp_origin (searchParams info),
                   nb_destination = sp_destination (searchParams info),
                   nb_departureDate = sp_departureDate (searchParams info),
                   nb_returnDate = Some (sp_returnDate (searchParams info)),
                   nb_passengers = form_passengers page,
                   nb_totalPrice = pr,
                   nb_currency = code cur,
                   nb_contactEmail = form_contactEmail page,
                   nb_contactPhone = form_contactPhone page,
                   nb_paymentStatus = PaymentPending,
                   nb_paymentReference = None,
                   nb_flightData = flightJson run,
                   nb_status = Pending\<rparr>"
  obtain db1 where c: "createBooking (Inr bookingId) (randoms run) (nowCreated run) (nowUpdated run) db ?nb = Inr (bookingId, db1)"
    using createBooking_total by blast
  from createBooking_ok [OF c] obtain b where b: "db1 = db(bookingId \<mapsto> b)"
     "passengers b = form_passengers page"
    by auto
  let ?ref = "''PAY-'' @ showInt (dateNow run) @ ''-'' @ bookingId"
  show ?thesis
  proof (cases "widgetEvent run = Callback ''success''")
    case False
    then have "fst (paymentSteps (Some t) cur run u page db) = db1"
      using assms c pr
      by (cases "widgetEvent run") (simp_all add: paymentSteps_def Let_def initializePayment_def)
    with b show ?thesis by simp
  next
    case True
    show ?thesis
    proof (cases "updateBookingPayment (updateFault run) (nowPaid run) db1 bookingId completed ?ref")
      case (Inl e)
      with True have "fst (paymentSteps (Some t) cur run u page db) = db1"
        using assms c pr by (simp add: paymentSteps_def Let_def initializePayment_def)
      with b show ?thesis by simp
    next
      case (Inr db2)
      with True have "fst (paymentSteps (Some t) cur run u page db) = db2"
        using assms c pr by (simp add: paymentSteps_def Let_def initializePayment_def)
      moreover from Inr b obtain b2 where "db2 bookingId = Some b2" "passengers b2 = passengers b"
        by (auto simp: updateBookingPayment_Inr)
      ultimately show ?thesis using b by simp
    qed
  qed
qed

lemma handlePayment_store:
  assumes "user page = Some u" and "validateForm page = None"
  shows "snd (handlePayment (Some t) cur run (page, db)) =
           fst (paymentSteps (Some t) cur run u (page\<lparr>loading := True, error := None\<rparr>) db)"
  using assms
  by (simp add: handlePayment_def Let_def split: prod.split sum.split option.split)

text \<open>
  C3: a search with passenger counts \<open>a\<close>, \<open>c\<close>, \<open>i\<close> (none negative) opens the
  booking form; whatever the user then types into it, the booking that \<open>handlePayment\<close>
  creates has \<open>a + c + i\<close> passengers, all adults first, then all children, then all
  infants.
\<close>

theorem booking_passenger_sequence:
  assumes "adults sp = Some a" and "children sp = Some c" and "infants sp = Some i"
    and "0 \<le> a" and "0 \<le> c" and "0 \<le> i"
    and "page = foldl formEvent
                  (mountBooking (Some \<lparr>flight = f, searchParams = sp\<rparr>)
                     (initialBookingPage (Some u) stored)) events"
    and "validateForm page = None"
    and "addDocOutcome run = Inr bookingId"
  shows "\<exists>b. snd (handlePayment (Some t) cur run (page, db)) bookingId = Some b \<and>
             map passengerType (passengers b) =
               replicate (nat a) Adult @ replicate (nat c) Child @ replicate (nat i) Infant \<and>
             int (length (passengers b)) = a + c + i"
proof -
  let ?m = "mountBooking (Some \<lparr>flight = f, searchParams = sp\<rparr>) (initialBookingPage (Some u) stored)"
  have u: "user page = Some u"
    using assms(7) by (simp add: mountBooking_def initialBookingPage_def)
  have fi: "flightInfo (page\<lparr>loading := True, error := None\<rparr>) = Some \<lparr>flight = f, searchParams = sp\<rparr>"
    using assms(7) by (simp add: mountBooking_def)
  have "map passengerType (form_passengers page) = map passengerType (form_passengers ?m)"
    using assms(7) by (simp add: formEvents_types)
  also have "form_passengers ?m = initialPassengers sp"
    by (simp add: mountBooking_def)
  also have "map passengerType (initialPassengers sp) =
               replicate (nat a) Adult @ replicate (nat c) Child @ replicate (nat i) Infant"
    using assms(1-3)
    by (simp add: initialPassengers_replicate boundOf_def orZero_def blankPassenger_def)
  finally have types: "map passengerType (form_passengers page) =
               replicate (nat a) Adult @ replicate (nat c) Child @ replicate (nat i) Infant" .
  from paymentSteps_created [where t = t and cur = cur and u = u and db = db, OF fi assms(9)]
  obtain b where b: "fst (paymentSteps (Some t) cur run u (page\<lparr>loading := True, error := None\<rparr>) db) bookingId = Some b"
    "passengers b = form_passengers page"
    by auto
  have "length (map passengerType (passengers b)) = nat a + nat c + nat i"
    using b(2) types by simp
  then have "int (length (passengers b)) = a + c + i"
    using assms(4-6) by simp
  with b types u assms(8) show ?thesis
    by (simp add: handlePayment_store)
qed

text \<open>The scenario of C3: adults = 2, children = 1 gives the types adult, adult, child.\<close>

theorem booking_passenger_sequence_witness:
  "adults sampleSearch = Some 2 \<and> children sampleSearch = Some 1 \<and> infants sampleSearch = Some 0 \<and>
   validateForm samplePage = None \<and> addDocOutcome (sampleRun OnClose) = Inr ''doc1'' \<and>
   map passengerType
     (passengers (the (snd (handlePayment (Some fallbackRates) USD (sampleRun OnClose) (samplePage, Map.empty)) ''doc1'')))
     = [Adult, Adult, Child] \<and>
   length (passengers (the (snd (handlePayment (Some fallbackRates) USD (sampleRun OnClose) (samplePage, Map.empty)) ''doc1''))) = 3"
proof -
  have s: "adults sampleSearch = Some 2" "children sampleSearch = Some 1" "infants sampleSearch = Some 0"
    by (simp_all add: sampleSearch_def)
  have v: "validateForm samplePage = None"
    by code_simp
  have r: "addDocOutcome (sampleRun OnClose) = Inr ''doc1''"
    by (simp add: sampleRun_def)
  have n: "replicate (nat 2) Adult @ replicate (nat 1) Child @ replicate (nat 0) Infant = [Adult, Adult, Child]"
    by code_simp
  from booking_passenger_sequence [OF s _ _ _ samplePage_def v r, of fallbackRates USD Map.empty]
  obtain b where "snd (handlePayment (Some fallbackRates) USD (sampleRun OnClose) (samplePage, Map.empty)) ''doc1'' = Some b"
    "map passengerType (passengers b) = replicate (nat 2) Adult @ replicate (nat 1) Child @ replicate (nat 0) Infant"
    "int (length (passengers b)) = 2 + 1 + 0"
    by auto
  with s v r n show ?thesis by simp
qed



text \<open>
  C10: a call of \<open>updateBookingPayment\<close> returns normally exactly when the request
  reaches an existing record. The record it then leaves has the payment status it was given
  (completed or failed), booking status confirmed if and only if that written payment status
  is completed, booking status pending (not failed, not cancelled) when the written payment
  status is failed, the payment reference, and the update time stamped, in both cases.
\<close>

theorem updateBookingPayment_confirmed_iff_completed:
  "(updateBookingPayment fault now db bookingId ps ref = Inr db' \<longrightarrow>
      (\<exists>b b'. fault = None \<and> db bookingId = Some b \<and> db' = db(bookingId \<mapsto> b') \<and>
         (ps = completed \<longrightarrow> paymentStatus b' = PaymentCompleted \<and> status b' = Confirmed) \<and>
         (ps = failed \<longrightarrow> paymentStatus b' = PaymentFailed \<and> status b' = Pending) \<and>
         (status b' = Confirmed \<longleftrightarrow> paymentStatus b' = PaymentCompleted) \<and>
         paymentStatus b' \<noteq> PaymentPending \<and> status b' \<noteq> Cancelled \<and>
         paymentReference b' = Some ref \<and> updatedAt b' = now)) \<and>
   (fault = None \<and> db bookingId = Some b0 \<longrightarrow>
      (\<exists>db1. updateBookingPayment fault now db bookingId ps ref = Inr db1))"
proof (intro conjI impI)
  assume "updateBookingPayment fault now db bookingId ps ref = Inr db'"
  then obtain b where f: "fault = None" and b: "db bookingId = Some b"
    and d: "db' = db(bookingId \<mapsto>
                    b\<lparr>paymentStatus := asPaymentStatus ps, paymentReference := Some ref,
                      status := (if ps = completed then Confirmed else Pending),
                      updatedAt := now\<rparr>)"
    by (auto simp: updateBookingPayment_Inr)
  let ?b' = "b\<lparr>paymentStatus := asPaymentStatus ps, paymentReference := Some ref,
                status := (if ps = completed then Confirmed else Pending), updatedAt := now\<rparr>"
  have "(ps = completed \<longrightarrow> paymentStatus ?b' = PaymentCompleted \<and> status ?b' = Confirmed) \<and>
         (ps = failed \<longrightarrow> paymentStatus ?b' = PaymentFailed \<and> status ?b' = Pending) \<and>
         (status ?b' = Confirmed \<longleftrightarrow> paymentStatus ?b' = PaymentCompleted) \<and>
         paymentStatus ?b' \<noteq> PaymentPending \<and> status ?b' \<noteq> Cancelled \<and>
         paymentReference ?b' = Some ref \<and> updatedAt ?b' = now"
    by (cases ps) simp_all
  with f b d show "\<exists>b b'. fault = None \<and> db bookingId = Some b \<and> db' = db(bookingId \<mapsto> b') \<and>
         (ps = completed \<longrightarrow> paymentStatus b' = PaymentCompleted \<and> status b' = Confirmed) \<and>
         (ps = failed \<longrightarrow> paymentStatus b' = PaymentFailed \<and> status b' = Pending) \<and>
         (status b' = Confirmed \<longleftrightarrow> paymentStatus b' = PaymentCompleted) \<and>
         paymentStatus b' \<noteq> PaymentPending \<and> status b' \<noteq> Cancelled \<and>
         paymentReference b' = Some ref \<and> updatedAt b' = now"
    by (intro exI [of _ b] exI [of _ ?b']) blast
next
  assume "fault = None \<and> db bookingId = Some b0"
  then show "\<exists>db1. updateBookingPayment fault now db bookingId ps ref = Inr db1"
    by (simp add: updateBookingPayment_Inr)
qed

text \<open>
  C10 on a pending record whose payment completed, and on a cancelled record whose payment
  failed: the first becomes completed and confirmed, the second failed and pending, stamped
  2000.
\<close>

theorem updateBookingPayment_confirmed_iff_completed_witness:
  "paymentStatus (the (projr (updateBookingPayment None 2000 [''doc1'' \<mapsto> sampleBooking Pending PaymentPending ''2030-01-01''] ''doc1'' completed ''PAY-1'') ''doc1'')) = PaymentCompleted \<and>
   status (the (projr (updateBookingPayment None 2000 [''doc1'' \<mapsto> sampleBooking Pending PaymentPending ''2030-01-01''] ''doc1'' completed ''PAY-1'') ''doc1'')) = Confirmed \<and>
   paymentStatus (the (projr (updateBookingPayment None 2000 [''doc1'' \<mapsto> sampleBooking Cancelled PaymentPending ''2030-01-01''] ''doc1'' failed ''PAY-1'') ''doc1'')) = PaymentFailed \<and>
   status (the (projr (updateBookingPayment None 2000 [''doc1'' \<mapsto> sampleBooking Cancelled PaymentPending ''2030-01-01''] ''doc1'' failed ''PAY-1'') ''doc1'')) = Pending \<and>
   updatedAt (the (projr (updateBookingPayment None 2000 [''doc1'' \<mapsto> sampleBooking Cancelled PaymentPending ''2030-01-01''] ''doc1'' failed ''PAY-1'') ''doc1'')) = 2000"
proof -
  let ?b1 = "sampleBooking Pending PaymentPending ''2030-01-01''"
  let ?b2 = "sampleBooking Cancelled PaymentPending ''2030-01-01''"
  let ?r1 = "updateBookingPayment None 2000 [''doc1'' \<mapsto> ?b1] ''doc1'' completed ''PAY-1''"
  let ?r2 = "updateBookingPayment None 2000 [''doc1'' \<mapsto> ?b2] ''doc1'' failed ''PAY-1''"
  note t1 = updateBookingPayment_confirmed_iff_completed
              [of None 2000 "[''doc1'' \<mapsto> ?b1]" "''doc1''" completed "''PAY-1''" "projr ?r1" ?b1]
  note t2 = updateBookingPayment_confirmed_iff_completed
              [of None 2000 "[''doc1'' \<mapsto> ?b2]" "''doc1''" failed "''PAY-1''" "projr ?r2" ?b2]
  from t1 obtain db1 where r1: "?r1 = Inr db1" by auto
  from t2 obtain db2 where r2: "?r2 = Inr db2" by auto
  from t1 r1 obtain b' where "db1 = [''doc1'' \<mapsto> ?b1](''doc1'' \<mapsto> b')"
    "paymentStatus b' = PaymentCompleted" "status b' = Confirmed"
    by auto
  moreover from t2 r2 obtain b'' where "db2 = [''doc1'' \<mapsto> ?b2](''doc1'' \<mapsto> b'')"
    "paymentStatus b'' = PaymentFailed" "status b'' = Pending" "updatedAt b'' = 2000"
    by auto
  ultimately show ?thesis using r1 r2 by simp
qed

lemma renderRow_Inr:
  assumes "renderRow parseOffer dateValue ex cur now c booking = Inr v"
  shows "view_id v = row_id booking"
    and "cancelButton v \<longleftrightarrow>
           status (row_data booking) = Confirmed \<and> \<not> isPastFlight dateValue now (row_data booking)"
    and "cancelDisabled v \<longleftrightarrow> c = Some (row_id booking)"
  using assms
  by (auto simp: renderRow_def Let_def split: sum.splits list.splits if_splits)

lemma renderRows_Inr:
  "renderRows callback bs = Inr vs \<Longrightarrow> v \<in> set vs \<Longrightarrow> \<exists>b \<in> set bs. callback b = Inr v"
proof (induction bs arbitrary: vs)
  case Nil
  then show ?case by simp
next
  case (Cons b bs)
  from Cons.prems(1) obtain w ws where w: "callback b = Inr w"
    and ws: "renderRows callback bs = Inr ws" and vs: "vs = w # ws"
    by (auto split: sum.splits)
  show ?case
  proof (cases "v = w")
    case True
    with w show ?thesis by simp
  next
    case False
    with Cons.prems(2) vs have "v \<in> set ws" by simp
    from Cons.IH [OF ws this] show ?thesis by auto
  qed
qed

lemma renderList_Inr:
  assumes "renderList parseOffer dateValue ex cur now page = Inr vs" and "v \<in> set vs"
  shows "\<exists>b \<in> set (filteredBookings page).
           renderRow parseOffer dateValue ex cur now (cancelling page) b = Inr v"
proof -
  from assms have "renderRows (renderRow parseOffer dateValue ex cur now (cancelling page))
                     (filteredBookings page) = Inr vs"
    by (auto simp: renderList_def split: if_splits)
  from renderRows_Inr [OF this assms(2)] show ?thesis .
qed

lemma cancelOffered_row:
  assumes "cancelOffered parseOffer dateValue ex cur now page bookingId"
  shows "\<exists>row \<in> set (filteredBookings page).
           row_id row = bookingId \<and> status (row_data row) = Confirmed \<and>
           \<not> isPastFlight dateValue now (row_data row)"
proof -
  from assms obtain vs v where vs: "renderList parseOffer dateValue ex cur now page = Inr vs"
    and v: "v \<in> set vs" "view_id v = bookingId" "cancelButton v"
    by (auto simp: cancelOffered_def list_ex_iff split: sum.splits)
  from renderList_Inr [OF vs v(1)] obtain row where row: "row \<in> set (filteredBookings page)"
    and r: "renderRow parseOffer dateValue ex cur now (cancelling page) row = Inr v"
    by auto
  from renderRow_Inr(1,2) [OF r] v(2,3) row show ?thesis by auto
qed

lemma cancelBooking_Inr:
  "db bookingId = Some b \<Longrightarrow>
   cancelBooking None stamp db bookingId =
     Inr (db(bookingId \<mapsto> b\<lparr>status := Cancelled, updatedAt := stamp\<rparr>))"
  by (simp add: cancelBooking_def updateDoc_def)

lemma handleCancelBooking_store:
  "snd st bookingId = Some b \<Longrightarrow>
   snd (handleCancelBooking True None stamp bookingId st) =
     (snd st)(bookingId \<mapsto> b\<lparr>status := Cancelled, updatedAt := stamp\<rparr>)"
  by (simp add: handleCancelBooking_def Let_def cancelBooking_Inr)

lemma formatPrice_table:
  "formatPrice (Some t) sel p c =
     Inr (symbol sel @ toFixed2 (projr (convertPrice (Some t) sel p c)))"
proof -
  from convertPrice_table_total [of t sel p c] obtain pr
    where "convertPrice (Some t) sel p c = Inr pr" by auto
  then show ?thesis by (simp add: formatPrice_def)
qed

lemma sampleRow_rendered:
  "renderRow sampleParse sampleDateValue (Some t) cur now None (sampleRow st dep) =
     Inr \<lparr>view_id = ''doc1'',
          cancelButton = (st = Confirmed \<and>
                          \<not> num_less (sampleDateValue dep) (Val (of_int now))),
          cancelDisabled = False\<rparr>"
  by (simp add: renderRow_def sampleRow_def sampleBooking_def sampleParse_def offerA_def
      sampleOffer_def formatPrice_table isPastFlight_def Let_def)

lemma sampleList_offered:
  "cancelOffered sampleParse sampleDateValue (Some t) cur now (fst (sampleList st dep)) ''doc1''
     \<longleftrightarrow> st = Confirmed \<and> \<not> num_less (sampleDateValue dep) (Val (of_int now))"
  by (simp add: cancelOffered_def renderList_def sampleList_def sampleRow_rendered)

text \<open>
  C2 as stated fails in two ways. The list was rendered one second before the departure
  of a confirmed booking, so the row has its cancel button; the click comes one second after
  the departure, and the handler, which looks at neither status nor date, cancels the booking:
  a confirmed booking whose departure is past when it is cancelled is not refused. And a
  booking whose departure is at the very instant of the rendering, which is not in the
  future, has the button too.
\<close>

theorem cancel_after_departure_counterexample:
  "sampleDateValue (departureDate (row_data (sampleRow Confirmed ''2030-01-01''))) = Val 1893456000000 \<and>
   status (the (snd (sampleList Confirmed ''2030-01-01'') ''doc1'')) = Confirmed \<and>
   cancelOffered sampleParse sampleDateValue (Some fallbackRates) USD 1893455999000
     (fst (sampleList Confirmed ''2030-01-01'')) ''doc1'' \<and>
   num_less (Val 1893456000000) (Val (of_int 1893456001000)) \<and>
   status (the (snd (cancelAction sampleParse sampleDateValue (Some fallbackRates) USD 1893455999000
                       True None 1893456001000 ''doc1'' (sampleList Confirmed ''2030-01-01'')) ''doc1''))
     = Cancelled \<and>
   updatedAt (the (snd (cancelAction sampleParse sampleDateValue (Some fallbackRates) USD 1893455999000
                          True None 1893456001000 ''doc1'' (sampleList Confirmed ''2030-01-01'')) ''doc1''))
     = 1893456001000 \<and>
   cancelOffered sampleParse sampleDateValue (Some fallbackRates) USD 1893456000000
     (fst (sampleList Confirmed ''2030-01-01'')) ''doc1''"
proof -
  have d: "sampleDateValue ''2030-01-01'' = Val 1893456000000"
    by (simp add: sampleDateValue_def)
  have s: "snd (sampleList Confirmed ''2030-01-01'') ''doc1''
             = Some (sampleBooking Confirmed PaymentCompleted ''2030-01-01'')"
    by (simp add: sampleList_def)
  have o1: "cancelOffered sampleParse sampleDateValue (Some fallbackRates) USD 1893455999000
              (fst (sampleList Confirmed ''2030-01-01'')) ''doc1''"
    by (simp add: sampleList_offered d)
  have o2: "cancelOffered sampleParse sampleDateValue (Some fallbackRates) USD 1893456000000
              (fst (sampleList Confirmed ''2030-01-01'')) ''doc1''"
    by (simp add: sampleList_offered d)
  have c: "snd (cancelAction sampleParse sampleDateValue (Some fallbackRates) USD 1893455999000
                  True None 1893456001000 ''doc1'' (sampleList Confirmed ''2030-01-01''))
             = (snd (sampleList Confirmed ''2030-01-01''))
                 (''doc1'' \<mapsto> (sampleBooking Confirmed PaymentCompleted ''2030-01-01'')
                                  \<lparr>status := Cancelled, updatedAt := 1893456001000\<rparr>)"
    using o1 by (simp add: cancelAction_def handleCancelBooking_store [OF s])
  have r: "departureDate (row_data (sampleRow Confirmed ''2030-01-01'')) = ''2030-01-01''"
    by (simp add: sampleRow_def sampleBooking_def)
  have st: "status (sampleBooking Confirmed PaymentCompleted ''2030-01-01'') = Confirmed"
    by (simp add: sampleBooking_def)
  show ?thesis
    by (simp add: r d s st o1 o2 c)
qed

text \<open>
  C2, amended: the cancel action is there for a booking only if the list, at the time it
  is rendered, shows a row of that booking whose status is confirmed and whose departure
  is not before that time. In particular, when every listed row of the booking is confirmed
  with a departure before the time of rendering, nothing is offered and the cancel action
  changes neither the page nor the store; the same holds whenever nothing is offered. When
  the action is offered, the user confirms the dialog and the request reaches the existing
  record, the record gets status cancelled and the update time of the request, whatever
  that time is, and every other record stays as it was.
\<close>

theorem cancel_offered_iff_confirmed_not_past_at_render:
  "(cancelOffered parseOffer dateValue ex cur now (fst st) bookingId \<longrightarrow>
      (\<exists>row \<in> set (filteredBookings (fst st)).
          row_id row = bookingId \<and> status (row_data row) = Confirmed \<and>
          (\<forall>d. dateValue (departureDate (row_data row)) = Val d \<longrightarrow> of_int now \<le> d))) \<and>
   ((\<forall>row \<in> set (filteredBookings (fst st)).
        row_id row = bookingId \<longrightarrow>
          status (row_data row) = Confirmed \<and>
          (\<exists>d. dateValue (departureDate (row_data row)) = Val d \<and> d < of_int now)) \<longrightarrow>
      \<not> cancelOffered parseOffer dateValue ex cur now (fst st) bookingId \<and>
      cancelAction parseOffer dateValue ex cur now answer fault stamp bookingId st = st) \<and>
   (\<not> cancelOffered parseOffer dateValue ex cur now (fst st) bookingId \<longrightarrow>
      cancelAction parseOffer dateValue ex cur now answer fault stamp bookingId st = st) \<and>
   (cancelOffered parseOffer dateValue ex cur now (fst st) bookingId \<and> answer \<and>
    fault = None \<and> snd st bookingId = Some b \<longrightarrow>
      snd (cancelAction parseOffer dateValue ex cur now answer fault stamp bookingId st) =
        (snd st)(bookingId \<mapsto> b\<lparr>status := Cancelled, updatedAt := stamp\<rparr>))"
proof (intro conjI impI)
  assume "cancelOffered parseOffer dateValue ex cur now (fst st) bookingId"
  from cancelOffered_row [OF this] obtain row where row: "row \<in> set (filteredBookings (fst st))"
    and r: "row_id row = bookingId" "status (row_data row) = Confirmed"
           "\<not> isPastFlight dateValue now (row_data row)"
    by auto
  from r(3) have "\<forall>d. dateValue (departureDate (row_data row)) = Val d \<longrightarrow> of_int now \<le> d"
    by (auto simp: isPastFlight_def)
  with row r(1,2) show "\<exists>row \<in> set (filteredBookings (fst st)).
          row_id row = bookingId \<and> status (row_data row) = Confirmed \<and>
          (\<forall>d. dateValue (departureDate (row_data row)) = Val d \<longrightarrow> of_int now \<le> d)"
    by blast
next
  assume past: "\<forall>row \<in> set (filteredBookings (fst st)).
        row_id row = bookingId \<longrightarrow>
          status (row_data row) = Confirmed \<and>
          (\<exists>d. dateValue (departureDate (row_data row)) = Val d \<and> d < of_int now)"
  show "\<not> cancelOffered parseOffer dateValue ex cur now (fst st) bookingId"
  proof
    assume "cancelOffered parseOffer dateValue ex cur now (fst st) bookingId"
    from cancelOffered_row [OF this] obtain row where row: "row \<in> set (filteredBookings (fst st))"
      and r: "row_id row = bookingId" "\<not> isPastFlight dateValue now (row_data row)"
      by auto
    from past row r(1) obtain d where "dateValue (departureDate (row_data row)) = Val d"
      "d < of_int now" by auto
    with r(2) show False by (simp add: isPastFlight_def)
  qed
  then show "cancelAction parseOffer dateValue ex cur now answer fault stamp bookingId st = st"
    by (simp add: cancelAction_def)
next
  assume "\<not> cancelOffered parseOffer dateValue ex cur now (fst st) bookingId"
  then show "cancelAction parseOffer dateValue ex cur now answer fault stamp bookingId st = st"
    by (simp add: cancelAction_def)
next
  assume "cancelOffered parseOffer dateValue ex cur now (fst st) bookingId \<and> answer \<and>
    fault = None \<and> snd st bookingId = Some b"
  then show "snd (cancelAction parseOffer dateValue ex cur now answer fault stamp bookingId st) =
        (snd st)(bookingId \<mapsto> b\<lparr>status := Cancelled, updatedAt := stamp\<rparr>)"
    by (simp add: cancelAction_def handleCancelBooking_store)
qed

text \<open>
  C2 on a confirmed booking that left on 1 January 2020, listed on 1 January 2030: nothing
  is offered and nothing changes. And on a confirmed booking leaving on 1 January 2030,
  listed on 1 January 2020: the action is offered, and the record becomes cancelled, stamped
  with the time of the request.
\<close>

theorem cancel_offered_iff_confirmed_not_past_at_render_witness:
  "\<not> cancelOffered sampleParse sampleDateValue (Some fallbackRates) USD 1893456000000
       (fst (sampleList Confirmed ''2020-01-01'')) ''doc1'' \<and>
   cancelAction sampleParse sampleDateValue (Some fallbackRates) USD 1893456000000 True None
       1893456000500 ''doc1'' (sampleList Confirmed ''2020-01-01'')
     = sampleList Confirmed ''2020-01-01'' \<and>
   status (the (snd (sampleList Confirmed ''2020-01-01'') ''doc1'')) = Confirmed \<and>
   cancelOffered sampleParse sampleDateValue (Some fallbackRates) USD 1577836800000
       (fst (sampleList Confirmed ''2030-01-01'')) ''doc1'' \<and>
   snd (cancelAction sampleParse sampleDateValue (Some fallbackRates) USD 1577836800000 True None
          1577836800500 ''doc1'' (sampleList Confirmed ''2030-01-01''))
     = [''doc1'' \<mapsto> (sampleBooking Confirmed PaymentCompleted ''2030-01-01'')
                        \<lparr>status := Cancelled, updatedAt := 1577836800500\<rparr>]"
proof -
  let ?past = "sampleList Confirmed ''2020-01-01''"
  let ?future = "sampleList Confirmed ''2030-01-01''"
  have d: "sampleDateValue ''2030-01-01'' = Val 1893456000000"
          "sampleDateValue ''2020-01-01'' = Val 1577836800000"
    by (simp_all add: sampleDateValue_def)
  have rows: "\<forall>row \<in> set (filteredBookings (fst ?past)).
        row_id row = ''doc1'' \<longrightarrow>
          status (row_data row) = Confirmed \<and>
          (\<exists>d. sampleDateValue (departureDate (row_data row)) = Val d \<and> d < of_int 1893456000000)"
    by (simp add: sampleList_def sampleRow_def sampleBooking_def d)
  have off: "cancelOffered sampleParse sampleDateValue (Some fallbackRates) USD 1577836800000
               (fst ?future) ''doc1''"
    by (simp add: sampleList_offered d)
  have s: "snd ?future ''doc1'' = Some (sampleBooking Confirmed PaymentCompleted ''2030-01-01'')"
    by (simp add: sampleList_def)
  have s': "snd ?future = [''doc1'' \<mapsto> sampleBooking Confirmed PaymentCompleted ''2030-01-01'']"
    by (simp add: sampleList_def)
  have st: "status (the (snd ?past ''doc1'')) = Confirmed"
    by (simp add: sampleList_def sampleBooking_def)
  note p = cancel_offered_iff_confirmed_not_past_at_render
             [of sampleParse sampleDateValue "Some fallbackRates" USD 1893456000000 ?past
                 "''doc1''" True None 1893456000500]
  note f = cancel_offered_iff_confirmed_not_past_at_render
             [of sampleParse sampleDateValue "Some fallbackRates" USD 1577836800000 ?future
                 "''doc1''" True None 1577836800500
                 "sampleBooking Confirmed PaymentCompleted ''2030-01-01''"]
  from p rows have
    "\<not> cancelOffered sampleParse sampleDateValue (Some fallbackRates) USD 1893456000000
         (fst ?past) ''doc1''"
    "cancelAction sampleParse sampleDateValue (Some fallbackRates) USD 1893456000000 True None
         1893456000500 ''doc1'' ?past = ?past"
    by blast+
  moreover from f off s have
    "snd (cancelAction sampleParse sampleDateValue (Some fallbackRates) USD 1577836800000 True None
            1577836800500 ''doc1'' ?future)
       = (snd ?future)(''doc1'' \<mapsto> (sampleBooking Confirmed PaymentCompleted ''2030-01-01'')
                                     \<lparr>status := Cancelled, updatedAt := 1577836800500\<rparr>)"
    by blast
  ultimately show ?thesis using off st by (simp add: s')
qed

section \<open>Properties of the results page\<close>

lemma num_le_iff: "num_le x c \<longleftrightarrow> (\<exists>v p. x = Val v \<and> c = Val p \<and> v \<le> p)"
  by (cases x; cases c) simp_all

lemma mset_insertBy: "mset (insertBy cmp x ys) = add_mset x (mset ys)"
  by (induction ys) simp_all

lemma mset_array_sort: "mset (array_sort cmp xs) = mset xs"
  by (induction xs) (simp_all add: mset_insertBy)

lemma mset_insertByTry: "insertByTry cmp x ys = Inr zs \<Longrightarrow> mset zs = add_mset x (mset ys)"
  by (induction ys arbitrary: zs) (auto split: sum.splits if_splits)

lemma mset_array_sortTry: "array_sortTry cmp xs = Inr ys \<Longrightarrow> mset ys = mset xs"
  by (induction xs arbitrary: ys) (auto split: sum.splits dest: mset_insertByTry)

lemma insertBy_insort_key:
  fixes key :: "'a \<Rightarrow> rat"
  assumes "\<And>y. y \<in> set ys \<Longrightarrow> cmp x y = Val (key x - key y)"
  shows "insertBy cmp x ys = insort_key key x ys"
  using assms by (induction ys) auto

lemma array_sort_sort_key:
  fixes key :: "'a \<Rightarrow> rat"
  assumes "\<And>a b. a \<in> set xs \<Longrightarrow> b \<in> set xs \<Longrightarrow> cmp a b = Val (key a - key b)"
  shows "array_sort cmp xs = sort_key key xs"
  using assms
proof (induction xs)
  case Nil
  then show ?case by simp
next
  case (Cons x xs)
  then have "array_sort cmp xs = sort_key key xs" by simp
  moreover have "insertBy cmp x (sort_key key xs) = insort_key key x (sort_key key xs)"
    by (rule insertBy_insort_key) (simp add: Cons.prems)
  ultimately show ?case by simp
qed

lemma insertByTry_insort_key:
  fixes key :: "'a \<Rightarrow> rat"
  assumes "\<And>y. y \<in> set ys \<Longrightarrow> cmp x y = Inr (Val (key x - key y))"
  shows "insertByTry cmp x ys = Inr (insort_key key x ys)"
  using assms by (induction ys) auto

lemma array_sortTry_sort_key:
  fixes key :: "'a \<Rightarrow> rat"
  assumes "\<And>a b. a \<in> set xs \<Longrightarrow> b \<in> set xs \<Longrightarrow> cmp a b = Inr (Val (key a - key b))"
  shows "array_sortTry cmp xs = Inr (sort_key key xs)"
  using assms
proof (induction xs)
  case Nil
  then show ?case by simp
next
  case (Cons x xs)
  then have "array_sortTry cmp xs = Inr (sort_key key xs)" by simp
  moreover have "insertByTry cmp x (sort_key key xs) = Inr (insort_key key x (sort_key key xs))"
    by (rule insertByTry_insort_key) (simp add: Cons.prems)
  ultimately show ?case by simp
qed

lemma getNumberOfStops_Inr:
  "getNumberOfStops f = Inr n \<longleftrightarrow>
     (\<exists>outbound rest. itineraries f = outbound # rest \<and> n = int (length (segments outbound)) - 1)"
  by (auto simp: getNumberOfStops_def split: list.splits)

lemma filterStops_Inr:
  "filterStops S fs = Inr out \<Longrightarrow>
     out = filter (\<lambda>f. \<exists>n. getNumberOfStops f = Inr n \<and> n \<in> set S) fs"
  by (induction fs arbitrary: out) (auto split: sum.splits if_splits)

lemma filterStops_total:
  "\<forall>f\<in>set fs. itineraries f \<noteq> [] \<Longrightarrow> \<exists>out. filterStops S fs = Inr out"
proof (induction fs)
  case Nil
  then show ?case by simp
next
  case (Cons f fs)
  then obtain out where "filterStops S fs = Inr out" by auto
  moreover from Cons.prems obtain n where "getNumberOfStops f = Inr n"
    by (cases "itineraries f") (simp_all add: getNumberOfStops_def)
  ultimately show ?case by simp
qed

lemma mset_sortFlights: "sortFlights binding sb fs = Inr out \<Longrightarrow> mset out = mset fs"
  by (auto simp: sortFlights_def mset_array_sort split: if_splits dest: mset_array_sortTry)

lemma set_sortFlights: "sortFlights binding sb fs = Inr out \<Longrightarrow> set out = set fs"
  by (drule mset_sortFlights) (rule mset_eq_setD)

lemma set_airlineFilter: "set (airlineFilter A fs) \<subseteq> set fs"
  by (auto simp: airlineFilter_def)

lemma filteredFlights_stages:
  assumes "filteredFlights (Some response) maxPrice S A sb = Inr out"
  shows "\<exists>kept. stopCountFilter S (priceCeilingFilter maxPrice (response_data response)) = Inr kept \<and>
           set out \<subseteq> set kept"
  using assms set_airlineFilter
  by (auto simp: filteredFlights_def split: sum.splits dest!: set_sortFlights)

lemma set_stopCountFilter:
  "stopCountFilter S fs = Inr kept \<Longrightarrow> set kept \<subseteq> set fs"
  by (auto simp: stopCountFilter_def split: if_splits dest: filterStops_Inr)

lemma isDigit_not_isSpace: "isDigit c \<Longrightarrow> \<not> isSpace c"
  by (auto simp: isDigit_def isSpace_def)

lemma parseInt_leading_digit: "isDigit c \<Longrightarrow> \<exists>m. parseInt (c # r) = Val m"
  by (simp add: parseInt_def isDigit_not_isSpace)

lemma digitsThen_leading_digit:
  assumes "digitsThen x s = Some (m, r)"
  shows "\<exists>c t. m = c # t \<and> isDigit c"
proof -
  from assms have ne: "takeWhile isDigit s \<noteq> []"
    and m: "m = takeWhile isDigit s @ [x]"
    by (auto simp: digitsThen_def Let_def split: list.splits if_splits)
  then obtain c t where ct: "takeWhile isDigit s = c # t"
    by (cases "takeWhile isDigit s") auto
  then have "c \<in> set (takeWhile isDigit s)" by simp
  then have "isDigit c" by (rule set_takeWhileD [THEN conjunct2])
  with m ct show ?thesis by simp
qed

lemma group_value:
  "\<exists>v. (case digitsThen x s of Some (m, _) \<Rightarrow> parseInt m | None \<Rightarrow> Val 0) = Val v"
proof (cases "digitsThen x s")
  case None
  then show ?thesis by simp
next
  case (Some a)
  then obtain m r where "digitsThen x s = Some (m, r)" by (cases a) auto
  moreover from this obtain c t where "m = c # t" "isDigit c"
    using digitsThen_leading_digit by blast
  ultimately show ?thesis
    using parseInt_leading_digit [of c t] by auto
qed

lemma parseDuration_Val: "\<exists>m. parseDuration d = Val m"
proof (cases "afterPT d")
  case None
  then show ?thesis by (simp add: parseDuration_def)
next
  case (Some s)
  obtain h where h: "(case digitsThen (CHR ''H'') s of Some (m, _) \<Rightarrow> parseInt m | None \<Rightarrow> Val 0) = Val h"
    using group_value by blast
  let ?s' = "case digitsThen (CHR ''H'') s of Some (_, r) \<Rightarrow> r | None \<Rightarrow> s"
  obtain mi where mi: "(case digitsThen (CHR ''M'') ?s' of Some (m, _) \<Rightarrow> parseInt m | None \<Rightarrow> Val 0) = Val mi"
    using group_value by blast
  from Some h mi show ?thesis
    by (simp add: parseDuration_def Let_def)
qed

lemma sorted_sort_key_rel:
  fixes key :: "'a \<Rightarrow> rat"
  assumes "\<And>a b. a \<in> set xs \<Longrightarrow> b \<in> set xs \<Longrightarrow> key a \<le> key b \<Longrightarrow> R a b"
  shows "sorted_wrt R (sort_key key xs)"
proof -
  have "sorted (map key (sort_key key xs))" by (rule sorted_sort_key)
  then have "sorted_wrt (\<lambda>a b. key a \<le> key b) (sort_key key xs)"
    by (simp add: sorted_map)
  then show ?thesis
    by (rule sorted_wrt_mono_rel [rotated]) (simp add: assms)
qed

lemma stable_sort_key_rel:
  fixes key :: "'a \<Rightarrow> rat"
  assumes "\<And>a. a \<in> set xs \<Longrightarrow> g a = emb (key a)" and "inj_on emb UNIV"
  shows "filter (\<lambda>f. g f = k) (sort_key key xs) = filter (\<lambda>f. g f = k) xs"
proof (cases "\<exists>v. k = emb v")
  case True
  then obtain v where v: "k = emb v" by blast
  have "filter (\<lambda>f. g f = k) (sort_key key xs) = filter (\<lambda>f. key f = v) (sort_key key xs)"
    using assms v by (intro filter_cong refl) (auto dest: inj_onD)
  also have "\<dots> = filter (\<lambda>f. key f = v) xs"
    by (rule sort_key_stable)
  also have "\<dots> = filter (\<lambda>f. g f = k) xs"
    using assms v by (intro filter_cong refl) (auto dest: inj_onD)
  finally show ?thesis .
next
  case False
  with assms(1) have "filter (\<lambda>f. g f = k) (sort_key key xs) = []"
    and "filter (\<lambda>f. g f = k) xs = []"
    by (auto simp: filter_empty_conv)
  then show ?thesis by simp
qed

lemma sortFlights_price:
  assumes "\<forall>f\<in>set offers. parseFloat (total (price f)) \<noteq> NaN"
  shows "\<exists>out. sortFlights binding SortByPrice offers = Inr out \<and> mset out = mset offers \<and>
           sorted_wrt (\<lambda>a b. num_le (parseFloat (total (price a))) (parseFloat (total (price b)))) out \<and>
           (\<forall>k. filter (\<lambda>f. parseFloat (total (price f)) = k) out
                 = filter (\<lambda>f. parseFloat (total (price f)) = k) offers)"
proof -
  define key where "key f = (case parseFloat (total (price f)) of Val v \<Rightarrow> v | NaN \<Rightarrow> 0)" for f :: FlightOffer
  have k: "parseFloat (total (price f)) = Val (key f)" if "f \<in> set offers" for f
    using that assms by (cases "parseFloat (total (price f))") (auto simp: key_def)
  have "array_sort comparePrice offers = sort_key key offers"
    by (rule array_sort_sort_key) (simp add: comparePrice_def k)
  then have out: "sortFlights binding SortByPrice offers = Inr (sort_key key offers)"
    by (simp add: sortFlights_def)
  have "sorted_wrt (\<lambda>a b. num_le (parseFloat (total (price a))) (parseFloat (total (price b))))
          (sort_key key offers)"
    by (rule sorted_sort_key_rel) (simp add: k)
  moreover have "filter (\<lambda>f. parseFloat (total (price f)) = c) (sort_key key offers)
                 = filter (\<lambda>f. parseFloat (total (price f)) = c) offers" for c
    by (rule stable_sort_key_rel [where emb = Val]) (simp_all add: k inj_on_def)
  ultimately show ?thesis using out by simp
qed

lemma sortFlights_duration:
  assumes "\<forall>f\<in>set offers. itineraries f \<noteq> []"
  shows "\<exists>out. sortFlights (Some parseDuration) SortByDuration offers = Inr out \<and>
           mset out = mset offers \<and>
           sorted_wrt (\<lambda>a b. \<exists>m n. outboundDuration (Some parseDuration) a = Inr (Val m) \<and>
                                   outboundDuration (Some parseDuration) b = Inr (Val n) \<and> m \<le> n) out \<and>
           (\<forall>k. filter (\<lambda>f. outboundDuration (Some parseDuration) f = k) out
                 = filter (\<lambda>f. outboundDuration (Some parseDuration) f = k) offers)"
proof -
  let ?d = "outboundDuration (Some parseDuration)"
  define key where "key f = (case ?d f of Inr (Val v) \<Rightarrow> v | _ \<Rightarrow> 0)" for f :: FlightOffer
  have k: "?d f = Inr (Val (key f))" if "f \<in> set offers" for f
  proof -
    from that assms obtain outbound rest where "itineraries f = outbound # rest"
      by (cases "itineraries f") auto
    moreover obtain m where "parseDuration (duration outbound) = Val m"
      using parseDuration_Val by blast
    ultimately show ?thesis by (simp add: outboundDuration_def key_def)
  qed
  have "array_sortTry (compareDuration (Some parseDuration)) offers = Inr (sort_key key offers)"
    by (rule array_sortTry_sort_key) (simp add: compareDuration_def k)
  then have out: "sortFlights (Some parseDuration) SortByDuration offers = Inr (sort_key key offers)"
    by (simp add: sortFlights_def)
  have "sorted_wrt (\<lambda>a b. \<exists>m n. ?d a = Inr (Val m) \<and> ?d b = Inr (Val n) \<and> m \<le> n)
          (sort_key key offers)"
    by (rule sorted_sort_key_rel) (simp add: k)
  moreover have "filter (\<lambda>f. ?d f = c) (sort_key key offers) = filter (\<lambda>f. ?d f = c) offers" for c
    by (rule stable_sort_key_rel [where emb = "\<lambda>v. Inr (Val v)"]) (simp_all add: k inj_on_def)
  ultimately show ?thesis using out by simp
qed

lemma array_sortTry_throwing:
  assumes "\<And>x y. cmp x y = Inl e"
  shows "array_sortTry cmp xs = (if length xs \<le> 1 then Inr xs else Inl e)"
proof (induction xs)
  case Nil
  then show ?case by simp
next
  case (Cons x xs)
  show ?case
  proof (cases xs)
    case Nil
    then show ?thesis by simp
  next
    case (Cons y ys)
    with Cons.IH assms show ?thesis
      by (cases ys) simp_all
  qed
qed

text \<open>
  C4: for every offer collection and every ceiling, the price-ceiling filter keeps exactly
  the offers whose total price is at most the ceiling, each as often as it occurs in the
  input; a price equal to the ceiling is kept. Every offer in the result of
  \<open>filteredFlights\<close> under a ceiling is an input offer with price at most the ceiling.
\<close>

theorem priceCeilingFilter_exact:
  "mset (priceCeilingFilter (Some c) offers) =
     filter_mset (\<lambda>f. \<exists>v p. parseFloat (total (price f)) = Val v \<and> c = Val p \<and> v \<le> p) (mset offers) \<and>
   (f \<in> set (priceCeilingFilter (Some c) offers) \<longleftrightarrow>
      f \<in> set offers \<and> (\<exists>v p. parseFloat (total (price f)) = Val v \<and> c = Val p \<and> v \<le> p)) \<and>
   (filteredFlights (Some response) (Some c) selectedStops selectedAirlines sortBy = Inr out \<and>
    f \<in> set out \<longrightarrow>
      f \<in> set (response_data response) \<and>
      (\<exists>v p. parseFloat (total (price f)) = Val v \<and> c = Val p \<and> v \<le> p))"
proof (intro conjI impI)
  show "mset (priceCeilingFilter (Some c) offers) =
     filter_mset (\<lambda>f. \<exists>v p. parseFloat (total (price f)) = Val v \<and> c = Val p \<and> v \<le> p) (mset offers)"
    by (simp add: priceCeilingFilter_def num_le_iff)
  show m: "f \<in> set (priceCeilingFilter (Some c) offers) \<longleftrightarrow>
      f \<in> set offers \<and> (\<exists>v p. parseFloat (total (price f)) = Val v \<and> c = Val p \<and> v \<le> p)"
    for offers
    by (simp add: priceCeilingFilter_def num_le_iff)
  assume a: "filteredFlights (Some response) (Some c) selectedStops selectedAirlines sortBy = Inr out
             \<and> f \<in> set out"
  then obtain kept where "stopCountFilter selectedStops (priceCeilingFilter (Some c) (response_data response)) = Inr kept"
    and "set out \<subseteq> set kept"
    using filteredFlights_stages by blast
  with a have "f \<in> set (priceCeilingFilter (Some c) (response_data response))"
    using set_stopCountFilter by blast
  then show "f \<in> set (response_data response)"
    and "\<exists>v p. parseFloat (total (price f)) = Val v \<and> c = Val p \<and> v \<le> p"
    by (simp_all add: m)
qed

text \<open>
  C4 on the offers priced 100, 250, 80, 400 with ceiling 250: sorted by price the result is
  80, 100, 250.
\<close>

theorem priceCeilingFilter_exact_witness:
  "filteredFlights (Some sampleResponse) (Some (Val 250)) [] [] SortByPrice = Inr [offerC, offerA, offerB] \<and>
   offerB \<in> set (priceCeilingFilter (Some (Val 250)) [offerA, offerB, offerC, offerD]) \<and>
   offerD \<notin> set (priceCeilingFilter (Some (Val 250)) [offerA, offerB, offerC, offerD]) \<and>
   parseFloat (total (price offerB)) = Val 250 \<and> parseFloat (total (price offerD)) = Val 400"
proof -
  have r: "filteredFlights (Some sampleResponse) (Some (Val 250)) [] [] SortByPrice = Inr [offerC, offerA, offerB]"
    by code_simp
  have b: "parseFloat (total (price offerB)) = Val 250" and d: "parseFloat (total (price offerD)) = Val 400"
    by code_simp+
  have mem: "offerB \<in> set [offerC, offerA, offerB]" by simp
  from priceCeilingFilter_exact
         [of "Val 250" "[offerA, offerB, offerC, offerD]" offerB sampleResponse "[]" "[]" SortByPrice
             "[offerC, offerA, offerB]"] r mem b
  have 1: "offerB \<in> set (priceCeilingFilter (Some (Val 250)) [offerA, offerB, offerC, offerD])"
    by (simp add: sampleResponse_def)
  from priceCeilingFilter_exact
         [of "Val 250" "[offerA, offerB, offerC, offerD]" offerD sampleResponse "[]" "[]" SortByPrice
             "[offerC, offerA, offerB]"] d
  have 2: "offerD \<notin> set (priceCeilingFilter (Some (Val 250)) [offerA, offerB, offerC, offerD])"
    by simp
  from r 1 2 b d show ?thesis by simp
qed

text \<open>
  C5: the stop count of an offer is the number of segments of its outbound leg minus one.
  For a non-empty accepted set, the stop-count filter keeps exactly the offers whose stop
  count is in the set (it returns a result when every offer has an outbound leg), so every
  offer it keeps, and every offer in the result of \<open>filteredFlights\<close>, has its stop
  count in the set; with the empty set the collection is returned as it is.
\<close>

theorem stopCountFilter_members:
  "(getNumberOfStops offer = Inr n \<longleftrightarrow>
      (\<exists>outbound rest. itineraries offer = outbound # rest \<and>
                        n = int (length (segments outbound)) - 1)) \<and>
   (selectedStops \<noteq> [] \<and> (\<forall>f\<in>set offers. itineraries f \<noteq> []) \<longrightarrow>
      (\<exists>kept. stopCountFilter selectedStops offers = Inr kept \<and>
         kept = filter (\<lambda>f. \<exists>k. getNumberOfStops f = Inr k \<and> k \<in> set selectedStops) offers)) \<and>
   (selectedStops \<noteq> [] \<and> stopCountFilter selectedStops offers = Inr kept \<and> offer \<in> set kept \<longrightarrow>
      (\<exists>outbound rest. itineraries offer = outbound # rest \<and>
                        int (length (segments outbound)) - 1 \<in> set selectedStops)) \<and>
   stopCountFilter [] offers = Inr offers \<and>
   (selectedStops \<noteq> [] \<and>
    filteredFlights (Some response) maxPrice selectedStops selectedAirlines sortBy = Inr out \<and>
    offer \<in> set out \<longrightarrow>
      (\<exists>outbound rest. itineraries offer = outbound # rest \<and>
                        int (length (segments outbound)) - 1 \<in> set selectedStops))"
proof (intro conjI impI)
  show "getNumberOfStops offer = Inr n \<longleftrightarrow>
      (\<exists>outbound rest. itineraries offer = outbound # rest \<and>
                        n = int (length (segments outbound)) - 1)"
    by (rule getNumberOfStops_Inr)
  show "stopCountFilter [] offers = Inr offers"
    by (simp add: stopCountFilter_def)
  have member: "\<exists>outbound rest. itineraries offer = outbound # rest \<and>
                        int (length (segments outbound)) - 1 \<in> set selectedStops"
    if "selectedStops \<noteq> []" and "stopCountFilter selectedStops fs = Inr ks" and "offer \<in> set ks"
    for fs ks
  proof -
    from that have "ks = filter (\<lambda>f. \<exists>k. getNumberOfStops f = Inr k \<and> k \<in> set selectedStops) fs"
      by (simp add: stopCountFilter_def filterStops_Inr)
    with that(3) obtain k where "getNumberOfStops offer = Inr k" "k \<in> set selectedStops"
      by auto
    then show ?thesis by (auto simp: getNumberOfStops_Inr)
  qed
  {
    assume a: "selectedStops \<noteq> [] \<and> (\<forall>f\<in>set offers. itineraries f \<noteq> [])"
    then obtain ks where ks: "filterStops selectedStops offers = Inr ks"
      using filterStops_total by blast
    with a show "\<exists>kept. stopCountFilter selectedStops offers = Inr kept \<and>
         kept = filter (\<lambda>f. \<exists>k. getNumberOfStops f = Inr k \<and> k \<in> set selectedStops) offers"
      by (simp add: stopCountFilter_def filterStops_Inr)
  }
  {
    assume "selectedStops \<noteq> [] \<and> stopCountFilter selectedStops offers = Inr kept \<and> offer \<in> set kept"
    then show "\<exists>outbound rest. itineraries offer = outbound # rest \<and>
                        int (length (segments outbound)) - 1 \<in> set selectedStops"
      using member by blast
  }
  {
    assume a: "selectedStops \<noteq> [] \<and>
      filteredFlights (Some response) maxPrice selectedStops selectedAirlines sortBy = Inr out \<and>
      offer \<in> set out"
    then obtain ks where "stopCountFilter selectedStops (priceCeilingFilter maxPrice (response_data response)) = Inr ks"
      and "set out \<subseteq> set ks"
      using filteredFlights_stages by blast
    with a show "\<exists>outbound rest. itineraries offer = outbound # rest \<and>
                        int (length (segments outbound)) - 1 \<in> set selectedStops"
      using member by blast
  }
qed

text \<open>C5 on four offers with 1, 2, 1 and 3 segments and the accepted stop counts 0 and 2.\<close>

theorem stopCountFilter_members_witness:
  "getNumberOfStops offerA = Inr 0 \<and> getNumberOfStops offerD = Inr 2 \<and>
   stopCountFilter [0, 2] [offerA, offerB, offerC, offerD] = Inr [offerA, offerC, offerD] \<and>
   stopCountFilter [] [offerA, offerB, offerC, offerD] = Inr [offerA, offerB, offerC, offerD] \<and>
   filteredFlights (Some sampleResponse) None [0, 2] [] SortByPrice = Inr [offerC, offerA, offerD] \<and>
   length (segments (hd (itineraries offerD))) = 3"
proof -
  let ?all = "[offerA, offerB, offerC, offerD]"
  have its: "itineraries offerA \<noteq> [] \<and> itineraries offerB \<noteq> [] \<and>
             itineraries offerC \<noteq> [] \<and> itineraries offerD \<noteq> []"
    by (simp add: offerA_def offerB_def offerC_def offerD_def sampleOffer_def)
  have r: "filteredFlights (Some sampleResponse) None [0, 2] [] SortByPrice = Inr [offerC, offerA, offerD]"
    by code_simp
  have k: "filter (\<lambda>f. \<exists>k. getNumberOfStops f = Inr k \<and> k \<in> set [0, 2]) ?all = [offerA, offerC, offerD]"
    by (simp add: getNumberOfStops_def offerA_def offerB_def offerC_def offerD_def sampleOffer_def)
  note t = stopCountFilter_members
             [of offerD 2 "[0, 2]" ?all "[offerA, offerC, offerD]" sampleResponse None "[]"
                 SortByPrice "[offerC, offerA, offerD]"]
  from t its k have 1: "stopCountFilter [0, 2] ?all = Inr [offerA, offerC, offerD]"
    by simp
  from t have 2: "stopCountFilter [] ?all = Inr ?all"
    by simp
  from t r obtain outbound rest where o: "itineraries offerD = outbound # rest"
    "int (length (segments outbound)) - 1 \<in> set [0, 2]"
    by auto
  have 3: "getNumberOfStops offerA = Inr 0" "getNumberOfStops offerD = Inr 2"
    "length (segments (hd (itineraries offerD))) = 3"
    by (simp_all add: getNumberOfStops_def offerA_def offerD_def sampleOffer_def sampleSegment_def)
  from 1 2 3 r show ?thesis by simp
qed

text \<open>
  C6: with the sort key duration the comparison function cannot run: it reads
  \<open>parseDuration\<close> while that binding is uninitialised. A list of two or more offers
  is therefore not sorted, the sort throws a \<open>ReferenceError\<close>; so does
  \<open>filteredFlights\<close> on the four sample offers.
\<close>

theorem duration_sort_throws:
  "sortFlights None SortByDuration offers =
     (if length offers \<le> 1 then Inr offers
      else Inl (ReferenceError ''Cannot access 'parseDuration' before initialization'')) \<and>
   filteredFlights (Some sampleResponse) None [] [] SortByDuration =
     Inl (ReferenceError ''Cannot access 'parseDuration' before initialization'') \<and>
   filteredFlights (Some sampleResponse) None [] [] SortByPrice =
     Inr [offerC, offerA, offerB, offerD]"
proof (intro conjI)
  show "sortFlights None SortByDuration offers =
     (if length offers \<le> 1 then Inr offers
      else Inl (ReferenceError ''Cannot access 'parseDuration' before initialization''))"
    unfolding sortFlights_def
    by (simp add: array_sortTry_throwing [where e = "ReferenceError ''Cannot access 'parseDuration' before initialization''"]
          compareDuration_def outboundDuration_def)
  show "filteredFlights (Some sampleResponse) None [] [] SortByDuration =
     Inl (ReferenceError ''Cannot access 'parseDuration' before initialization'')"
    by code_simp
  show "filteredFlights (Some sampleResponse) None [] [] SortByPrice =
     Inr [offerC, offerA, offerB, offerD]"
    by code_simp
qed

lemma countRanges_labels:
  "map labelOf flights = map Inr labels \<Longrightarrow>
   countRanges labelOf flights acc = Inr (foldl (\<lambda>acc l. increment l acc) acc labels)"
proof (induction flights arbitrary: labels acc)
  case Nil
  then show ?case by simp
next
  case (Cons f fs)
  then obtain l ls where "labels = l # ls" "labelOf f = Inr l" "map labelOf fs = map Inr ls"
    by (cases labels) auto
  with Cons.IH [of ls "increment l acc"] show ?case by simp
qed

lemma priceGraphData_stages:
  assumes "flights = first # others"
    and "foldl math_min2 (parseFloat (total (price first)))
           (map (\<lambda>f. parseFloat (total (price f))) others) = minPrice"
    and "foldl math_max2 (parseFloat (total (price first)))
           (map (\<lambda>f. parseFloat (total (price f))) others) = maxPriceValue"
    and "num_div (num_sub maxPriceValue minPrice) (Val 10) = rangeSize"
    and "(if price_currency (price first) = [] then ''USD'' else price_currency (price first)) = cur"
    and "map (rangeLabelOf ex sel minPrice rangeSize cur) flights = map Inr labels"
    and "foldl (\<lambda>acc l. increment l acc) [] labels = priceRanges"
  shows "priceGraphData ex sel flights =
           Inr (array_sort (\<lambda>a b. num_sub (point_price a) (point_price b))
                  (map (\<lambda>(range', count').
                          \<lparr>range = range', count = count',
                           point_price = parseInt (filter isDigit range')\<rparr>) priceRanges))"
proof -
  from countRanges_labels [OF assms(6), of "[]"] assms(7)
  have c: "countRanges (rangeLabelOf ex sel minPrice rangeSize cur) flights [] = Inr priceRanges"
    by simp
  have "priceGraphData ex sel (first # others) =
          (case countRanges (rangeLabelOf ex sel minPrice rangeSize cur) (first # others) [] of
             Inl e \<Rightarrow> Inl e
           | Inr priceRanges \<Rightarrow>
               Inr (array_sort (\<lambda>a b. num_sub (point_price a) (point_price b))
                      (map (\<lambda>(range', count').
                              \<lparr>range = range', count = count',
                               point_price = parseInt (filter isDigit range')\<rparr>) priceRanges)))"
    unfolding priceGraphData_def Let_def list.case assms(2-5) ..
  with c show ?thesis
    unfolding assms(1) by simp
qed

text \<open>
  C7: on eleven offers priced 100, 110, ..., 200 the bucket width is 10 and the offer
  at the maximum has index \<open>(200 - 100) / 10 = 10\<close>: the graph has eleven buckets, not
  ten, the last one starting at the maximum price.
\<close>

theorem priceGraphData_eleven_buckets:
  "\<exists>points. priceGraphData (Some fallbackRates) USD elevenOffers = Inr points \<and>
     map (\<lambda>p. (range p, count p)) points =
       [(''$100.00'', 1), (''$110.00'', 1), (''$120.00'', 1), (''$130.00'', 1), (''$140.00'', 1),
        (''$150.00'', 1), (''$160.00'', 1), (''$170.00'', 1), (''$180.00'', 1), (''$190.00'', 1),
        (''$200.00'', 1)] \<and>
     length points = 11"
proof -
  let ?first = "sampleOffer ''x'' ''100'' ''PT2H'' 1"
  let ?others = "map (\<lambda>p. sampleOffer ''x'' p ''PT2H'' 1)
       [''110'', ''120'', ''130'', ''140'', ''150'', ''160'', ''170'', ''180'', ''190'', ''200'']"
  let ?labels = "[''$100.00'', ''$110.00'', ''$120.00'', ''$130.00'', ''$140.00'', ''$150.00'',
       ''$160.00'', ''$170.00'', ''$180.00'', ''$190.00'', ''$200.00'']"
  let ?ranges = "map (\<lambda>l. (l, 1::nat)) ?labels"
  let ?points = "map (\<lambda>(l, v). \<lparr>range = l, count = 1, point_price = Val v\<rparr>)
              (zip ?labels [10000, 11000, 12000, 13000, 14000, 15000, 16000, 17000, 18000, 19000, 20000])"
  have e: "elevenOffers = ?first # ?others"
    by (simp add: elevenOffers_def)
  have p1: "parseFloat (total (price ?first)) = Val 100"
    by code_simp
  have ps: "map (\<lambda>f. parseFloat (total (price f))) ?others
              = [Val 110, Val 120, Val 130, Val 140, Val 150, Val 160, Val 170, Val 180, Val 190, Val 200]"
    by code_simp
  have mn: "foldl math_min2 (parseFloat (total (price ?first)))
              (map (\<lambda>f. parseFloat (total (price f))) ?others) = Val 100"
    unfolding p1 ps by simp
  have mx: "foldl math_max2 (parseFloat (total (price ?first)))
              (map (\<lambda>f. parseFloat (total (price f))) ?others) = Val 200"
    unfolding p1 ps by simp
  have rs: "num_div (num_sub (Val 200) (Val 100)) (Val 10) = Val 10"
    by simp
  have cur: "(if price_currency (price ?first) = [] then ''USD'' else price_currency (price ?first)) = ''USD''"
    by (simp add: sampleOffer_def)
  have labels: "map (rangeLabelOf (Some fallbackRates) USD (Val 100) (Val 10) ''USD'') elevenOffers
                  = map Inr ?labels"
    by code_simp
  have ranges: "foldl (\<lambda>acc l. increment l acc) [] ?labels = ?ranges"
    by simp
  have sorted: "array_sort (\<lambda>a b. num_sub (point_price a) (point_price b))
             (map (\<lambda>(range', count').
                     \<lparr>range = range', count = count',
                      point_price = parseInt (filter isDigit range')\<rparr>) ?ranges)
          = ?points"
    by code_simp
  from priceGraphData_stages [OF e mn mx rs cur labels ranges]
  have "priceGraphData (Some fallbackRates) USD elevenOffers = Inr ?points"
    unfolding sorted .
  then show ?thesis
    by simp
qed

end
